theory Spec2Isabelle
  imports Main "HOL-Library.Word"
begin

unbundle bit_operations_syntax

section \<open>Shared definitions (globals.h, table.h)\<close>

text \<open>
  The ways in which a run of the C program can leave defined behaviour. Each is a
  branch of the model, so that a function which dereferences a null pointer or reads
  a buffer that was never written returns the error instead of some value. Reading a
  line buffer behind the NUL that ends the line gives what an earlier, longer line has
  left there: this is \<open>Read_Past_Terminator\<close>.
\<close>

datatype error = Null_Dereference | Uninitialised_Read | Use_After_Free | Read_Past_Terminator

datatype symbol_type =
  CODE_SYMBOL | DATA_SYMBOL | EXTERNAL_SYMBOL | EXTERNAL_REFERENCE | ENTRY_SYMBOL

text \<open>
  \<^verbatim>\<open>struct entry { table next; long value; char *key; symbol_type type; }\<close>:
  the linked list is a HOL list of its entries, \<^verbatim>\<open>NULL\<close> is the empty list.
  The \<^verbatim>\<open>long\<close> values are addresses and counters far below the range of the
  type, so they are integers.
\<close>

record table_entry =
  entry_value :: int
  entry_key :: string
  entry_type :: symbol_type

type_synonym table = "table_entry list"

section \<open>The symbol table (table.c)\<close>

text \<open>
  The \<^verbatim>\<open>while (curr_entry != NULL && curr_entry->value < value)\<close> loop of
  \<^verbatim>\<open>add_table_item\<close>: the new entry goes in front of the first entry, after
  the head, whose value is not below the new value.
\<close>

fun add_table_item_walk :: "table \<Rightarrow> table_entry \<Rightarrow> table" where
  "add_table_item_walk [] new_entry = [new_entry]"
| "add_table_item_walk (curr_entry # rest) new_entry =
     (if entry_value curr_entry < entry_value new_entry
      then curr_entry # add_table_item_walk rest new_entry
      else new_entry # curr_entry # rest)"

definition add_table_item :: "table \<Rightarrow> string \<Rightarrow> int \<Rightarrow> symbol_type \<Rightarrow> table" where
  "add_table_item tab k v ty =
     (let new_entry = \<lparr>entry_value = v, entry_key = k, entry_type = ty\<rparr>
      in case tab of
           [] \<Rightarrow> [new_entry]
         | head_entry # rest \<Rightarrow>
             if entry_value head_entry > v then new_entry # tab
             else head_entry # add_table_item_walk rest new_entry)"

definition add_value_to_type :: "table \<Rightarrow> int \<Rightarrow> symbol_type \<Rightarrow> table" where
  "add_value_to_type tab to_add ty =
     map (\<lambda>curr_entry.
            if entry_type curr_entry = ty
            then curr_entry\<lparr>entry_value := entry_value curr_entry + to_add\<rparr>
            else curr_entry) tab"

text \<open>
  \<^verbatim>\<open>filter_table_by_type\<close> is a do-while loop: its body reads \<^verbatim>\<open>tab->type\<close>
  before the first test of \<^verbatim>\<open>tab\<close> against \<^verbatim>\<open>NULL\<close>.
\<close>

fun filter_table_loop :: "table_entry \<Rightarrow> table \<Rightarrow> symbol_type \<Rightarrow> table \<Rightarrow> table" where
  "filter_table_loop e rest ty new_table =
     (let new_table' =
            (if entry_type e = ty
             then add_table_item new_table (entry_key e) (entry_value e) (entry_type e)
             else new_table)
      in case rest of
           [] \<Rightarrow> new_table'
         | e' # rest' \<Rightarrow> filter_table_loop e' rest' ty new_table')"

definition filter_table_by_type :: "table \<Rightarrow> symbol_type \<Rightarrow> error + table" where
  "filter_table_by_type tab ty =
     (case tab of
        [] \<Rightarrow> Inl Null_Dereference
      | e # rest \<Rightarrow> Inr (filter_table_loop e rest ty []))"

text \<open>
  \<^verbatim>\<open>find_by_types\<close>: the first entry, in list order, whose type is one of the
  given types and whose key is the given key.
\<close>

fun find_by_types :: "table \<Rightarrow> string \<Rightarrow> symbol_type list \<Rightarrow> table_entry option" where
  "find_by_types [] k valid_symbol_types = None"
| "find_by_types (e # rest) k valid_symbol_types =
     (if list_ex (\<lambda>t. t = entry_type e \<and> k = entry_key e) valid_symbol_types
      then Some e
      else find_by_types rest k valid_symbol_types)"

section \<open>C strings and lexical helpers (utils.c)\<close>

text \<open>
  A C string is the list of its characters before the terminating NUL. Reading the
  character at an index gives NUL at and after the end of the list.
\<close>

definition NUL :: char where
  "NUL = CHR 0x00"

definition char_at :: "string \<Rightarrow> nat \<Rightarrow> char" where
  "char_at s i = (if i < length s then s ! i else NUL)"

text \<open>
  \<^verbatim>\<open>EOF\<close> is \<^verbatim>\<open>-1\<close>; a (signed) \<^verbatim>\<open>char\<close> equals it when it is the byte 0xFF.
\<close>

definition is_EOF :: "char \<Rightarrow> bool" where
  "is_EOF c = (c = CHR 0xFF)"

definition isdigit_c :: "char \<Rightarrow> bool" where
  "isdigit_c c = (c \<in> set ''0123456789'')"

definition isalpha_c :: "char \<Rightarrow> bool" where
  "isalpha_c c =
     (c \<in> set ''abcdefghijklmnopqrstuvwxyzABCDEFGHIJKLMNOPQRSTUVWXYZ'')"

definition is_blank :: "char \<Rightarrow> bool" where
  "is_blank c = (c = CHR 0x09 \<or> c = CHR '' '')"

text \<open>
  \<^verbatim>\<open>MOVE_TO_NOT_WHITE(string, index)\<close>: advance the index over tabs and spaces.
\<close>

function MOVE_TO_NOT_WHITE :: "string \<Rightarrow> nat \<Rightarrow> nat" where
  "MOVE_TO_NOT_WHITE s i =
     (if i < length s \<and> is_blank (s ! i) then MOVE_TO_NOT_WHITE s (Suc i) else i)"
  by pat_completeness auto
termination
  by (relation "measure (\<lambda>(s, i). length s - i)") auto

declare MOVE_TO_NOT_WHITE.simps [simp del]

text \<open>
  The token loops of the source copy characters from an index up to the first
  character of a stop set (or the end of the string) and leave the index there.
\<close>

function scan_until :: "(char \<Rightarrow> bool) \<Rightarrow> string \<Rightarrow> nat \<Rightarrow> string \<times> nat" where
  "scan_until stop s i =
     (if i < length s \<and> \<not> stop (s ! i)
      then (case scan_until stop s (Suc i) of (tok, j) \<Rightarrow> (s ! i # tok, j))
      else ([], i))"
  by pat_completeness auto
termination
  by (relation "measure (\<lambda>(stop, s, i). length s - i)") auto

declare scan_until.simps [simp del]

definition digit_value :: "char \<Rightarrow> int" where
  "digit_value c = int (of_char c) - 48"

definition is_int :: "string \<Rightarrow> bool" where
  "is_int string =
     (let s = (case string of
                 [] \<Rightarrow> []
               | c # r \<Rightarrow> if c = CHR ''-'' \<or> c = CHR ''+'' then r else string)
      in list_all isdigit_c s \<and> length s > 0)"

definition LONG_MAX :: int where
  "LONG_MAX = 2 ^ 63 - 1"

text \<open>
  \<^verbatim>\<open>strtol(s, &end, 10)\<close>: leading white space, an optional sign, then the longest
  run of decimal digits; the value is clamped to the range of \<^verbatim>\<open>long\<close>.
\<close>

definition strtol :: "string \<Rightarrow> int" where
  "strtol s =
     (let s1 = dropWhile (\<lambda>c. c \<in> set [CHR '' '', CHR 0x09, CHR 0x0A, CHR 0x0B, CHR 0x0C, CHR 0x0D]) s;
          neg = (s1 \<noteq> [] \<and> hd s1 = CHR ''-'');
          s2 = (if s1 \<noteq> [] \<and> (hd s1 = CHR ''-'' \<or> hd s1 = CHR ''+'') then tl s1 else s1);
          v = foldl (\<lambda>acc c. 10 * acc + digit_value c) 0 (takeWhile isdigit_c s2)
      in if neg then max (- v) (- LONG_MAX - 1) else min v LONG_MAX)"

section \<open>Enumerations (globals.h)\<close>

text \<open>C enumerations are integers; each enumerator abbreviates its value.\<close>

type_synonym addressing_type = int

abbreviation IMMEDIATE_ADDR :: addressing_type where "IMMEDIATE_ADDR \<equiv> 0"
abbreviation DIRECT_ADDR :: addressing_type where "DIRECT_ADDR \<equiv> 1"
abbreviation REGISTER_INDIRECT_ADDR :: addressing_type where "REGISTER_INDIRECT_ADDR \<equiv> 2"
abbreviation REGISTER_ADDR :: addressing_type where "REGISTER_ADDR \<equiv> 3"
abbreviation NONE_ADDR :: addressing_type where "NONE_ADDR \<equiv> - 1"

type_synonym opcode = int

abbreviation MOV_OP :: opcode where "MOV_OP \<equiv> 0"
abbreviation CMP_OP :: opcode where "CMP_OP \<equiv> 1"
abbreviation ADD_OP :: opcode where "ADD_OP \<equiv> 2"
abbreviation SUB_OP :: opcode where "SUB_OP \<equiv> 3"
abbreviation LEA_OP :: opcode where "LEA_OP \<equiv> 4"
abbreviation CLR_OP :: opcode where "CLR_OP \<equiv> 5"
abbreviation NOT_OP :: opcode where "NOT_OP \<equiv> 6"
abbreviation INC_OP :: opcode where "INC_OP \<equiv> 7"
abbreviation DEC_OP :: opcode where "DEC_OP \<equiv> 8"
abbreviation JMP_OP :: opcode where "JMP_OP \<equiv> 9"
abbreviation BNE_OP :: opcode where "BNE_OP \<equiv> 10"
abbreviation RED_OP :: opcode where "RED_OP \<equiv> 11"
abbreviation PRN_OP :: opcode where "PRN_OP \<equiv> 12"
abbreviation JSR_OP :: opcode where "JSR_OP \<equiv> 13"
abbreviation RTS_OP :: opcode where "RTS_OP \<equiv> 14"
abbreviation STOP_OP :: opcode where "STOP_OP \<equiv> 15"
abbreviation NONE_OP :: opcode where "NONE_OP \<equiv> - 1"

type_synonym funct = int

abbreviation ADD_FUNCT :: funct where "ADD_FUNCT \<equiv> 1"
abbreviation SUB_FUNCT :: funct where "SUB_FUNCT \<equiv> 2"
abbreviation CLR_FUNCT :: funct where "CLR_FUNCT \<equiv> 1"
abbreviation NOT_FUNCT :: funct where "NOT_FUNCT \<equiv> 2"
abbreviation INC_FUNCT :: funct where "INC_FUNCT \<equiv> 3"
abbreviation DEC_FUNCT :: funct where "DEC_FUNCT \<equiv> 4"
abbreviation JMP_FUNCT :: funct where "JMP_FUNCT \<equiv> 1"
abbreviation BNE_FUNCT :: funct where "BNE_FUNCT \<equiv> 2"
abbreviation JSR_FUNCT :: funct where "JSR_FUNCT \<equiv> 3"
abbreviation NONE_FUNCT :: funct where "NONE_FUNCT \<equiv> 0"

type_synonym reg = int

abbreviation NONE_REG :: reg where "NONE_REG \<equiv> - 1"

datatype instruction =
  DATA_INST | EXTERN_INST | ENTRY_INST | STRING_INST | NONE_INST | ERROR_INST

abbreviation IC_INIT_VALUE :: int where "IC_INIT_VALUE \<equiv> 100"

text \<open>
  \<^verbatim>\<open>struct code_word\<close>, a record of bit-fields: a value stored into a field is
  truncated to the width of the field.
\<close>

record code_word =
  ARE :: "3 word"
  funct :: "5 word"
  dest_register :: "3 word"
  dest_addressing :: "2 word"
  src_register :: "3 word"
  src_addressing :: "2 word"
  opcode :: "6 word"

text \<open>\<^verbatim>\<open>struct data_word { unsigned int ARE: 3; unsigned long data; }\<close>\<close>

record data_word =
  data_ARE :: "3 word"
  data :: "64 word"

text \<open>
  \<^verbatim>\<open>struct machine_word\<close>: a \<^verbatim>\<open>length\<close> and a union of a pointer to a code
  word and a pointer to a data word. Every data word is created with length 0, and
  \<^verbatim>\<open>process_code\<close> gives every code word the number of slots of its instruction.
\<close>

datatype machine_word =
  Code_Word (code_length: int) code_word
| Data_Word data_word

fun word_length :: "machine_word \<Rightarrow> int" where
  "word_length (Code_Word n cw) = n"
| "word_length (Data_Word dw) = 0"

text \<open>
  \<^verbatim>\<open>machine_word *code_img[CODE_ARR_IMG_LENGTH]\<close>, indexed by \<^verbatim>\<open>ic - IC_INIT_VALUE\<close>:
  a slot holds a word or \<^verbatim>\<open>NULL\<close>. \<^verbatim>\<open>long data_img[CODE_ARR_IMG_LENGTH]\<close> is indexed
  by \<^verbatim>\<open>dc\<close>. The source never compares an index with the length of the arrays, and
  the model does not bound them.
\<close>

type_synonym code_image = "int \<Rightarrow> machine_word option"
type_synonym data_image = "int \<Rightarrow> int"

section \<open>Commands, operands and words (code.c)\<close>

definition lookup_table :: "(string \<times> opcode \<times> funct) list" where
  "lookup_table =
     [(''mov'', MOV_OP, NONE_FUNCT),
      (''cmp'', CMP_OP, NONE_FUNCT),
      (''add'', ADD_OP, ADD_FUNCT),
      (''sub'', SUB_OP, SUB_FUNCT),
      (''lea'', LEA_OP, NONE_FUNCT),
      (''clr'', CLR_OP, CLR_FUNCT),
      (''not'', NOT_OP, NOT_FUNCT),
      (''inc'', INC_OP, INC_FUNCT),
      (''dec'', DEC_OP, DEC_FUNCT),
      (''jmp'', JMP_OP, JMP_FUNCT),
      (''bne'', BNE_OP, BNE_FUNCT),
      (''jsr'', JSR_OP, JSR_FUNCT),
      (''red'', RED_OP, NONE_FUNCT),
      (''prn'', PRN_OP, NONE_FUNCT),
      (''rts'', RTS_OP, NONE_FUNCT),
      (''stop'', STOP_OP, NONE_FUNCT)]"

fun get_opcode_func_loop :: "(string \<times> opcode \<times> funct) list \<Rightarrow> string \<Rightarrow> opcode \<times> funct" where
  "get_opcode_func_loop [] cmd = (NONE_OP, NONE_FUNCT)"
| "get_opcode_func_loop ((c, op, f) # es) cmd =
     (if c = cmd then (op, f) else get_opcode_func_loop es cmd)"

definition get_opcode_func :: "string \<Rightarrow> opcode \<times> funct" where
  "get_opcode_func cmd = get_opcode_func_loop lookup_table cmd"

definition get_register_by_name :: "string \<Rightarrow> reg" where
  "get_register_by_name name =
     (if char_at name 0 = CHR ''r'' \<and> isdigit_c (char_at name 1) \<and> char_at name 2 = NUL
      then (let digit = digit_value (char_at name 1)
            in if digit \<ge> 0 \<and> digit \<le> 7 then digit else NONE_REG)
      else NONE_REG)"

definition is_register_indirect_addr :: "string \<Rightarrow> bool" where
  "is_register_indirect_addr name =
     (if char_at name 0 = CHR ''*'' then get_register_by_name (tl name) \<noteq> NONE_REG else False)"

definition instructions_lookup_table :: "(string \<times> instruction) list" where
  "instructions_lookup_table =
     [(''string'', STRING_INST), (''data'', DATA_INST),
      (''entry'', ENTRY_INST), (''extern'', EXTERN_INST)]"

definition find_instruction_by_name :: "string \<Rightarrow> instruction" where
  "find_instruction_by_name name =
     (case map_of instructions_lookup_table name of
        None \<Rightarrow> NONE_INST
      | Some v \<Rightarrow> v)"

definition is_reserved_word :: "string \<Rightarrow> bool" where
  "is_reserved_word name =
     (fst (get_opcode_func name) \<noteq> NONE_OP \<or> get_register_by_name name \<noteq> NONE_REG \<or>
      find_instruction_by_name name \<noteq> NONE_INST \<or> is_register_indirect_addr name)"

definition is_alphanumeric_str :: "string \<Rightarrow> bool" where
  "is_alphanumeric_str string = list_all (\<lambda>c. isalpha_c c \<or> isdigit_c c) string"

definition is_valid_label_name :: "string \<Rightarrow> bool" where
  "is_valid_label_name name =
     (name \<noteq> [] \<and> length name \<le> 31 \<and> isalpha_c (hd name) \<and>
      is_alphanumeric_str (tl name) \<and> \<not> is_reserved_word name)"

definition is_register_digit :: "char \<Rightarrow> bool" where
  "is_register_digit c = (c \<in> set ''01234567'')"

definition get_addressing_type :: "string \<Rightarrow> addressing_type" where
  "get_addressing_type operand =
     (if char_at operand 0 = NUL then NONE_ADDR
      else if char_at operand 0 = CHR ''#'' \<and> is_int (tl operand) then IMMEDIATE_ADDR
      else if char_at operand 0 = CHR ''*'' \<and> char_at operand 1 = CHR ''r'' \<and>
              is_register_digit (char_at operand 2) \<and> char_at operand 3 = NUL
           then REGISTER_INDIRECT_ADDR
      else if char_at operand 0 = CHR ''r'' \<and> is_register_digit (char_at operand 1) \<and>
              char_at operand 2 = NUL
           then REGISTER_ADDR
      else if is_valid_label_name operand then DIRECT_ADDR
      else NONE_ADDR)"

text \<open>
  \<^verbatim>\<open>validate_op_addr\<close> with its variadic lists of valid addressing types given as
  two lists.
\<close>

definition validate_op_addr ::
  "addressing_type \<Rightarrow> addressing_type \<Rightarrow> addressing_type list \<Rightarrow> addressing_type list \<Rightarrow> bool" where
  "validate_op_addr op1_addressing op2_addressing op1_valids op2_valids =
     (((op1_valids = [] \<and> op1_addressing = NONE_ADDR) \<or> op1_addressing \<in> set op1_valids) \<and>
      ((op2_valids = [] \<and> op2_addressing = NONE_ADDR) \<or> op2_addressing \<in> set op2_valids))"

definition validate_operand_by_opcode ::
  "addressing_type \<Rightarrow> addressing_type \<Rightarrow> opcode \<Rightarrow> int \<Rightarrow> bool" where
  "validate_operand_by_opcode first_addressing second_addressing curr_opcode op_count =
     (if curr_opcode \<ge> MOV_OP \<and> curr_opcode \<le> LEA_OP then
        (if op_count \<noteq> 2 then False
         else if curr_opcode = CMP_OP then
           validate_op_addr first_addressing second_addressing
             [IMMEDIATE_ADDR, DIRECT_ADDR, REGISTER_INDIRECT_ADDR, REGISTER_ADDR]
             [IMMEDIATE_ADDR, DIRECT_ADDR, REGISTER_ADDR, REGISTER_INDIRECT_ADDR]
         else if curr_opcode = ADD_OP \<or> curr_opcode = MOV_OP then
           (if first_addressing = NONE_ADDR \<or> second_addressing = NONE_ADDR then False
            else validate_op_addr first_addressing second_addressing
                   [IMMEDIATE_ADDR, DIRECT_ADDR, REGISTER_INDIRECT_ADDR, REGISTER_ADDR]
                   [DIRECT_ADDR, REGISTER_ADDR, REGISTER_INDIRECT_ADDR])
         else if curr_opcode = LEA_OP then
           validate_op_addr first_addressing second_addressing
             [DIRECT_ADDR, REGISTER_INDIRECT_ADDR]
             [DIRECT_ADDR, REGISTER_ADDR, REGISTER_INDIRECT_ADDR]
         else if curr_opcode = SUB_OP then
           validate_op_addr first_addressing second_addressing
             [IMMEDIATE_ADDR, DIRECT_ADDR, REGISTER_INDIRECT_ADDR, REGISTER_ADDR]
             [DIRECT_ADDR, REGISTER_INDIRECT_ADDR, REGISTER_ADDR]
         else True)
      else if curr_opcode \<ge> CLR_OP \<and> curr_opcode \<le> JSR_OP then
        (if op_count \<noteq> 1 then False
         else if curr_opcode = RED_OP \<or> curr_opcode = CLR_OP \<or> curr_opcode = NOT_OP \<or>
                 curr_opcode = INC_OP \<or> curr_opcode = DEC_OP then
           validate_op_addr first_addressing NONE_ADDR
             [DIRECT_ADDR, REGISTER_ADDR, REGISTER_INDIRECT_ADDR] []
         else if curr_opcode = JMP_OP \<or> curr_opcode = BNE_OP \<or> curr_opcode = JSR_OP then
           validate_op_addr first_addressing NONE_ADDR [DIRECT_ADDR, REGISTER_INDIRECT_ADDR] []
         else
           validate_op_addr first_addressing NONE_ADDR
             [IMMEDIATE_ADDR, DIRECT_ADDR, REGISTER_ADDR, REGISTER_INDIRECT_ADDR] [])
      else if curr_opcode = STOP_OP \<or> curr_opcode = RTS_OP then
        (if op_count > 0 then False else True)
      else True)"

text \<open>
  \<^verbatim>\<open>get_code_word\<close>: \<^verbatim>\<open>NULL\<close> when the operands do not fit the opcode. The operands
  are the list that \<^verbatim>\<open>analyze_operands\<close> found (at most two).
\<close>

definition get_code_word :: "opcode \<Rightarrow> funct \<Rightarrow> string list \<Rightarrow> code_word option" where
  "get_code_word curr_opcode curr_funct operands =
     (let op_count = int (length operands);
          first_addressing = (if op_count \<ge> 1 then get_addressing_type (operands ! 0) else NONE_ADDR);
          second_addressing = (if op_count = 2 then get_addressing_type (operands ! 1) else NONE_ADDR)
      in if \<not> validate_operand_by_opcode first_addressing second_addressing curr_opcode op_count
         then None
         else Some \<lparr>ARE = 4,
                    funct = word_of_int curr_funct,
                    dest_register =
                      (if second_addressing = REGISTER_ADDR
                       then word_of_int (get_register_by_name (operands ! 1)) else 0),
                    dest_addressing = word_of_int second_addressing,
                    src_register =
                      (if first_addressing = REGISTER_ADDR
                       then word_of_int (get_register_by_name (operands ! 0)) else 0),
                    src_addressing = word_of_int first_addressing,
                    opcode = word_of_int curr_opcode\<rparr>)"

definition build_data_word_immediate :: "int \<Rightarrow> data_word" where
  "build_data_word_immediate v = \<lparr>data_ARE = 4, data = word_of_int (v AND 0xFFF)\<rparr>"

definition build_data_word_register :: "int \<Rightarrow> data_word" where
  "build_data_word_register r = \<lparr>data_ARE = 4, data = word_of_int (r AND 0xF)\<rparr>"

definition build_data_word_direct :: "int \<Rightarrow> bool \<Rightarrow> data_word" where
  "build_data_word_direct v is_extern_symbol =
     \<lparr>data_ARE = (if is_extern_symbol then 1 else 4), data = word_of_int (v AND 0xFFF)\<rparr>"

text \<open>
  \<^verbatim>\<open>analyze_operands\<close>: the operands of a line from an index on, with \<^verbatim>\<open>FALSE\<close> for a
  misplaced comma or a third operand. The list returned is what the function has stored
  in \<^verbatim>\<open>destination\<close>; after \<^verbatim>\<open>FALSE\<close> the source has freed those strings.
\<close>

definition is_line_end :: "char \<Rightarrow> bool" where
  "is_line_end c = (c = CHR 0x0A \<or> is_EOF c \<or> c = NUL)"

definition operand_stop :: "char \<Rightarrow> bool" where
  "operand_stop c = (c = CHR 0x09 \<or> c = CHR '' '' \<or> c = CHR 0x0A \<or> is_EOF c \<or> c = CHR '','')"

lemma MOVE_TO_NOT_WHITE_ge: "i \<le> MOVE_TO_NOT_WHITE s i"
proof (induction s i rule: MOVE_TO_NOT_WHITE.induct)
  case (1 s i)
  show ?case
  proof (cases "i < length s \<and> is_blank (s ! i)")
    case True
    then have "Suc i \<le> MOVE_TO_NOT_WHITE s (Suc i)" using 1 by simp
    then show ?thesis using True by (subst MOVE_TO_NOT_WHITE.simps) simp
  next
    case False
    then show ?thesis by (subst MOVE_TO_NOT_WHITE.simps) auto
  qed
qed

lemma scan_until_ge: "i \<le> snd (scan_until stop s i)"
proof (induction stop s i rule: scan_until.induct)
  case (1 stop s i)
  show ?case
  proof (cases "i < length s \<and> \<not> stop (s ! i)")
    case True
    then have "Suc i \<le> snd (scan_until stop s (Suc i))" using 1 by simp
    then show ?thesis using True
      by (subst scan_until.simps) (simp add: split_beta)
  next
    case False
    then show ?thesis by (subst scan_until.simps) auto
  qed
qed

lemma not_line_end_less: "\<not> is_line_end (char_at s i) \<Longrightarrow> i < length s"
  by (auto simp: is_line_end_def char_at_def split: if_splits)

function analyze_operands_loop :: "string \<Rightarrow> nat \<Rightarrow> string list \<Rightarrow> bool \<times> string list" where
  "analyze_operands_loop s i ops =
     (if is_line_end (char_at s i) then (True, ops)
      else if length ops = 2 then (False, ops)
      else
        (let ops' = ops @ [fst (scan_until operand_stop s i)];
             i2 = MOVE_TO_NOT_WHITE s (snd (scan_until operand_stop s i))
         in if is_line_end (char_at s i2) then (True, ops')
            else if char_at s i2 \<noteq> CHR '','' then (False, ops')
            else
              (let i3 = MOVE_TO_NOT_WHITE s (Suc i2)
               in if is_line_end (char_at s i3) then (False, ops')
                  else if char_at s i3 = CHR '','' then (False, ops')
                  else analyze_operands_loop s i3 ops')))"
  by pat_completeness auto
termination
proof (relation "measure (\<lambda>(s, i, ops). length s - i)", goal_cases)
  case 1
  show ?case by simp
next
  case (2 s i ops ops' i2 i3)
  have "i \<le> snd (scan_until operand_stop s i)" by (rule scan_until_ge)
  also have "\<dots> \<le> i2" unfolding 2 by (rule MOVE_TO_NOT_WHITE_ge)
  also have "i2 < Suc i2" by simp
  also have "Suc i2 \<le> i3" unfolding 2 by (rule MOVE_TO_NOT_WHITE_ge)
  finally have "i < i3" .
  moreover have "i < length s" using 2 by (simp add: not_line_end_less)
  ultimately show ?case by simp
qed

declare analyze_operands_loop.simps [simp del]

definition analyze_operands :: "string \<Rightarrow> nat \<Rightarrow> bool \<times> string list" where
  "analyze_operands content i0 =
     (let i = MOVE_TO_NOT_WHITE content i0
      in if char_at content i = CHR '','' then (False, [])
         else analyze_operands_loop content i [])"

section \<open>Directives (instructions.c)\<close>

definition find_instruction_from_index :: "string \<Rightarrow> nat \<Rightarrow> instruction \<times> nat" where
  "find_instruction_from_index content index0 =
     (let index = MOVE_TO_NOT_WHITE content index0
      in if char_at content index \<noteq> CHR ''.'' then (NONE_INST, index)
         else
           (case scan_until (\<lambda>c. c = CHR 0x09 \<or> c = CHR '' '') content index of
              (temp, index') \<Rightarrow>
                (let result = find_instruction_by_name (tl temp)
                 in if result \<noteq> NONE_INST then (result, index') else (ERROR_INST, index'))))"

text \<open>\<^verbatim>\<open>strrchr(content, c)\<close> as the index of the last occurrence.\<close>

fun strrchr :: "string \<Rightarrow> char \<Rightarrow> nat option" where
  "strrchr [] c = None"
| "strrchr (x # xs) c =
     (case strrchr xs c of
        Some j \<Rightarrow> Some (Suc j)
      | None \<Rightarrow> if x = c then Some 0 else None)"

text \<open>A (signed) \<^verbatim>\<open>char\<close> stored into a \<^verbatim>\<open>long\<close>.\<close>

definition char_to_long :: "char \<Rightarrow> int" where
  "char_to_long c = (let n = int (of_char c) in if n \<ge> 128 then n - 256 else n)"

text \<open>
  The loop of \<^verbatim>\<open>process_string_instruction\<close>: every character from the index up to
  the end of the line is stored at \<^verbatim>\<open>data_img[*dc]\<close>, and \<^verbatim>\<open>*dc\<close> is incremented.
\<close>

function string_store_loop :: "string \<Rightarrow> nat \<Rightarrow> data_image \<Rightarrow> int \<Rightarrow> data_image \<times> int" where
  "string_store_loop content index data_img dc =
     (if index < length content \<and> \<not> is_line_end (content ! index)
      then string_store_loop content (Suc index)
             (data_img(dc := char_to_long (content ! index))) (dc + 1)
      else (data_img, dc))"
  by pat_completeness auto
termination
  by (relation "measure (\<lambda>(content, index, data_img, dc). length content - index)") auto

declare string_store_loop.simps [simp del]

definition process_string_instruction ::
  "string \<Rightarrow> nat \<Rightarrow> data_image \<Rightarrow> int \<Rightarrow> bool \<times> data_image \<times> int" where
  "process_string_instruction content index0 data_img dc =
     (let last_quote_location = strrchr content (CHR 0x22);
          index = MOVE_TO_NOT_WHITE content index0
      in if char_at content index \<noteq> CHR 0x22 then (False, data_img, dc)
         else if Some index = last_quote_location then (False, data_img, dc)
         else (case string_store_loop content (Suc index) data_img dc of
                 (data_img', dc') \<Rightarrow> (True, data_img', dc')))"

definition data_stop :: "char \<Rightarrow> bool" where
  "data_stop c =
     (is_EOF c \<or> c = CHR 0x09 \<or> c = CHR '' '' \<or> c = CHR '','' \<or> c = CHR 0x0A)"

lemma scan_until_gt: "fst (scan_until stop s i) \<noteq> [] \<Longrightarrow> i < snd (scan_until stop s i)"
proof -
  assume a: "fst (scan_until stop s i) \<noteq> []"
  have c: "i < length s \<and> \<not> stop (s ! i)"
  proof (rule ccontr)
    assume "\<not> (i < length s \<and> \<not> stop (s ! i))"
    then have "scan_until stop s i = ([], i)"
      by (subst scan_until.simps) auto
    with a show False by simp
  qed
  then have "snd (scan_until stop s i) = snd (scan_until stop s (Suc i))"
    by (subst scan_until.simps) (simp add: split_beta)
  moreover have "Suc i \<le> snd (scan_until stop s (Suc i))" by (rule scan_until_ge)
  ultimately show ?thesis by simp
qed

lemma scan_until_le: "i \<le> length s \<Longrightarrow> snd (scan_until stop s i) \<le> length s"
proof (induction stop s i rule: scan_until.induct)
  case (1 stop s i)
  show ?case
  proof (cases "i < length s \<and> \<not> stop (s ! i)")
    case True
    then have "snd (scan_until stop s (Suc i)) \<le> length s" using 1 by simp
    then show ?thesis using True
      by (subst scan_until.simps) (simp add: split_beta)
  next
    case False
    then show ?thesis using 1(2) by (subst scan_until.simps) auto
  qed
qed

lemma is_int_nonempty: "is_int t \<Longrightarrow> t \<noteq> []"
  by (auto simp: is_int_def)

text \<open>
  The do-while loop of \<^verbatim>\<open>process_data_instruction\<close>. The index never passes the end
  of the string: the scan of a value stops at the terminator, and a value that is not
  an integer (the empty one included) ends the loop with \<^verbatim>\<open>FALSE\<close>.
\<close>

function data_store_loop :: "string \<Rightarrow> nat \<Rightarrow> data_image \<Rightarrow> int \<Rightarrow> bool \<times> data_image \<times> int" where
  "data_store_loop content index data_img dc =
     (let temp = fst (scan_until data_stop content index);
          index1 = snd (scan_until data_stop content index)
      in if \<not> is_int temp then (False, data_img, dc)
         else
           (let data_img' = data_img(dc := strtol temp);
                dc' = dc + 1;
                index2 = MOVE_TO_NOT_WHITE content index1
            in if char_at content index2 = CHR '','' then
                 (let index3 = MOVE_TO_NOT_WHITE content (Suc index2)
                  in if char_at content index3 \<noteq> CHR 0x0A \<and> \<not> is_EOF (char_at content index3)
                     then data_store_loop content index3 data_img' dc'
                     else (True, data_img', dc'))
               else if is_line_end (char_at content index2) then (True, data_img', dc')
               else data_store_loop content index2 data_img' dc'))"
  by pat_completeness auto
termination
proof (relation "measure (\<lambda>(content, index, data_img, dc). Suc (length content) - index)", goal_cases)
  case 1
  show ?case by simp
next
  case (2 content index data_img dc temp index1 data_img' dc' index2 index3)
  have "index < index1"
    using 2 scan_until_gt [of data_stop content index] by (simp add: is_int_nonempty)
  also have "index1 \<le> index2" unfolding 2 by (rule MOVE_TO_NOT_WHITE_ge)
  also have "index2 < Suc index2" by simp
  also have "Suc index2 \<le> index3" unfolding 2 by (rule MOVE_TO_NOT_WHITE_ge)
  finally have a: "index < index3" .
  have "index2 < length content"
    using 2 by (auto simp: char_at_def NUL_def split: if_splits)
  then have "index < length content" using \<open>index < index1\<close> \<open>index1 \<le> index2\<close> by simp
  with a show ?case by simp
next
  case (3 content index data_img dc temp index1 data_img' dc' index2)
  have "index < index1"
    using 3 scan_until_gt [of data_stop content index] by (simp add: is_int_nonempty)
  also have "index1 \<le> index2" unfolding 3 by (rule MOVE_TO_NOT_WHITE_ge)
  finally have a: "index < index2" .
  have "index2 < length content"
    using 3 by (auto simp: char_at_def is_line_end_def split: if_splits)
  with a show ?case by simp
qed

declare data_store_loop.simps [simp del]

definition process_data_instruction ::
  "string \<Rightarrow> nat \<Rightarrow> data_image \<Rightarrow> int \<Rightarrow> bool \<times> data_image \<times> int" where
  "process_data_instruction content index0 data_img dc =
     data_store_loop content (MOVE_TO_NOT_WHITE content index0) data_img dc"

section \<open>The first pass (utils.c, first\_pass.c)\<close>

text \<open>
  \<^verbatim>\<open>find_label\<close> copies the characters from the first non-blank one up to a colon
  (or the end of the string, or index 81). It returns \<^verbatim>\<open>TRUE\<close> only when there is a
  colon and the text before it is not a valid label name; the label found, or the
  empty string, is left in \<^verbatim>\<open>symbol_dest\<close>.
\<close>

definition find_label :: "string \<Rightarrow> bool \<times> string" where
  "find_label content =
     (case scan_until (\<lambda>c. c = CHR '':'' \<or> is_EOF c) (take 81 content)
             (MOVE_TO_NOT_WHITE content 0) of
        (symbol_dest, i) \<Rightarrow>
          if char_at content i = CHR '':'' then
            (if \<not> is_valid_label_name symbol_dest then (True, []) else (False, symbol_dest))
          else (False, []))"

text \<open>
  \<^verbatim>\<open>build_extra_codeword_fpass\<close> calls \<^verbatim>\<open>build_data_word_register(op_addr, reg, FALSE)\<close>
  and \<^verbatim>\<open>build_data_word_immediate(op_addr, value, FALSE)\<close>, with three arguments, while
  both functions are defined, and declared in code.h, with one parameter. The model
  leaves open which argument reaches the parameter: the first one passed (the
  addressing type), or the register number or value that the name of the function
  asks for.
\<close>

datatype argument_binding = First_Argument | Second_Argument

definition call_build_data_word_register ::
  "argument_binding \<Rightarrow> addressing_type \<Rightarrow> reg \<Rightarrow> data_word" where
  "call_build_data_word_register b op_addr r =
     build_data_word_register (case b of First_Argument \<Rightarrow> op_addr | Second_Argument \<Rightarrow> r)"

definition call_build_data_word_immediate ::
  "argument_binding \<Rightarrow> addressing_type \<Rightarrow> int \<Rightarrow> data_word" where
  "call_build_data_word_immediate b op_addr v =
     build_data_word_immediate (case b of First_Argument \<Rightarrow> op_addr | Second_Argument \<Rightarrow> v)"

definition is_register_operand :: "addressing_type \<Rightarrow> bool" where
  "is_register_operand a = (a = REGISTER_INDIRECT_ADDR \<or> a = REGISTER_ADDR)"

text \<open>
  The second half of \<^verbatim>\<open>build_extra_codeword_fpass\<close>, for the second operand.
  (\<^verbatim>\<open>operand2 == NONE_ADDR\<close> compares the pointer with \<^verbatim>\<open>-1\<close> and is never true.)
\<close>

definition build_extra_codeword_second ::
  "argument_binding \<Rightarrow> code_image \<Rightarrow> int \<Rightarrow> string option \<Rightarrow> addressing_type \<Rightarrow> code_image \<times> int" where
  "build_extra_codeword_second b code_img ic operand2 op_addr2 =
     (if op_addr2 \<noteq> NONE_ADDR then
        (let ic1 = ic + 1;
             code_img1 =
               (if is_register_operand op_addr2
                then code_img(ic1 - IC_INIT_VALUE \<mapsto>
                       Data_Word (call_build_data_word_register b op_addr2
                                    (get_register_by_name (the operand2))))
                else code_img)
         in if op_addr2 = DIRECT_ADDR then (code_img1, ic1)
            else if op_addr2 = IMMEDIATE_ADDR
            then (code_img1(ic1 - IC_INIT_VALUE \<mapsto>
                    Data_Word (call_build_data_word_immediate b op_addr2
                                 (strtol (tl (the operand2))))), ic1)
            else (code_img1, ic1))
      else (code_img, ic))"

text \<open>
  In the word shared by two register operands, \<^verbatim>\<open>reg2 << 6\<close> is computed on an
  \<^verbatim>\<open>int\<close> and joined to the \<^verbatim>\<open>unsigned long\<close> payload.
\<close>

definition build_extra_codeword_fpass ::
  "argument_binding \<Rightarrow> code_image \<Rightarrow> int \<Rightarrow> string \<Rightarrow> string option \<Rightarrow> code_image \<times> int" where
  "build_extra_codeword_fpass b code_img ic operand1 operand2 =
     (let op_addr1 = get_addressing_type operand1;
          op_addr2 = (case operand2 of None \<Rightarrow> NONE_ADDR | Some o2 \<Rightarrow> get_addressing_type o2)
      in if op_addr1 \<noteq> NONE_ADDR then
           (let ic1 = ic + 1
            in if is_register_operand op_addr1 \<and> is_register_operand op_addr2 then
                 (let reg1 = get_register_by_name operand1;
                      reg2 = get_register_by_name (the operand2);
                      dw = call_build_data_word_register b op_addr1 reg1;
                      dw' = dw\<lparr>data := data dw OR word_of_int (push_bit 6 reg2)\<rparr>
                  in (code_img(ic1 - IC_INIT_VALUE \<mapsto> Data_Word dw'), ic1))
               else
                 (let code_img1 =
                        (if is_register_operand op_addr1
                         then code_img(ic1 - IC_INIT_VALUE \<mapsto>
                                Data_Word (call_build_data_word_register b op_addr1
                                             (get_register_by_name operand1)))
                         else code_img);
                      code_img2 =
                        (if op_addr1 = IMMEDIATE_ADDR
                         then code_img1(ic1 - IC_INIT_VALUE \<mapsto>
                                Data_Word (call_build_data_word_immediate b op_addr1
                                             (strtol (tl operand1))))
                         else code_img1)
                  in build_extra_codeword_second b code_img2 ic1 operand2 op_addr2))
         else build_extra_codeword_second b code_img ic operand2 op_addr2)"

definition operation_stop :: "char \<Rightarrow> bool" where
  "operation_stop c = (c = CHR 0x09 \<or> c = CHR '' '' \<or> c = CHR 0x0A \<or> is_EOF c)"

text \<open>
  \<^verbatim>\<open>process_code\<close>: the operation name is at most six characters of the line; the code
  word goes to the slot of \<^verbatim>\<open>*ic\<close>, the operand words follow, and the length of the
  code word is the number of slots used.
\<close>

definition process_code ::
  "argument_binding \<Rightarrow> string \<Rightarrow> nat \<Rightarrow> int \<Rightarrow> code_image \<Rightarrow> bool \<times> int \<times> code_image" where
  "process_code b content i0 ic code_img =
     (let i = MOVE_TO_NOT_WHITE content i0;
          operation = take 6 (fst (scan_until operation_stop content i));
          i' = i + length operation;
          curr_opcode = fst (get_opcode_func operation);
          curr_funct = snd (get_opcode_func operation)
      in if curr_opcode = NONE_OP then (False, ic, code_img)
         else
           (case analyze_operands content i' of
              (False, operands) \<Rightarrow> (False, ic, code_img)
            | (True, operands) \<Rightarrow>
                (case get_code_word curr_opcode curr_funct operands of
                   None \<Rightarrow> (False, ic, code_img)
                 | Some codeword \<Rightarrow>
                     (let ic_before = ic;
                          extra =
                            (if operands \<noteq> []
                             then build_extra_codeword_fpass b code_img ic (operands ! 0)
                                    (if length operands > 1 then Some (operands ! 1) else None)
                             else (code_img, ic));
                          ic' = snd extra + 1
                      in (True, ic',
                          (fst extra)(ic_before - IC_INIT_VALUE \<mapsto>
                             Code_Word (ic' - ic_before) codeword))))))"

definition extern_stop :: "char \<Rightarrow> bool" where
  "extern_stop c = (c = CHR 0x0A \<or> c = CHR 0x09 \<or> c = CHR '' '' \<or> is_EOF c)"

text \<open>
  The state that the first pass threads through the lines of a file.
\<close>

record fpass_state =
  fp_IC :: int
  fp_DC :: int
  fp_code_img :: code_image
  fp_data_img :: data_image
  fp_symbol_table :: table

definition process_line_fpass ::
  "argument_binding \<Rightarrow> string \<Rightarrow> fpass_state \<Rightarrow> bool \<times> fpass_state" where
  "process_line_fpass b content st =
     (let i = MOVE_TO_NOT_WHITE content 0
      in if is_line_end (char_at content i) \<or> char_at content i = CHR '';'' then (True, st)
         else if fst (find_label content) then (False, st)
         else
           (let symbol = snd (find_label content)
            in if symbol \<noteq> [] \<and> \<not> is_valid_label_name symbol then (False, st)
               else
                 (let i1 = (if symbol \<noteq> []
                            then Suc (snd (scan_until (\<lambda>c. c = CHR '':'') content i))
                            else i);
                      i2 = MOVE_TO_NOT_WHITE content i1
                  in if char_at content i2 = CHR 0x0A then (True, st)
                     else if find_by_types (fp_symbol_table st) symbol
                               [EXTERNAL_SYMBOL, DATA_SYMBOL, CODE_SYMBOL] \<noteq> None
                     then (False, st)
                     else
                       (case find_instruction_from_index content i2 of
                          (inst, i3) \<Rightarrow>
                            if inst = ERROR_INST then (False, st)
                            else
                              (let i4 = MOVE_TO_NOT_WHITE content i3
                               in if inst \<noteq> NONE_INST then
                                    (let st1 =
                                           (if (inst = DATA_INST \<or> inst = STRING_INST) \<and> symbol \<noteq> []
                                            then st\<lparr>fp_symbol_table :=
                                                      add_table_item (fp_symbol_table st) symbol
                                                        (fp_DC st) DATA_SYMBOL\<rparr>
                                            else st)
                                     in if inst = STRING_INST then
                                          (case process_string_instruction content i4
                                                  (fp_data_img st1) (fp_DC st1) of
                                             (ok, data_img', dc') \<Rightarrow>
                                               (ok, st1\<lparr>fp_data_img := data_img', fp_DC := dc'\<rparr>))
                                        else if inst = DATA_INST then
                                          (case process_data_instruction content i4
                                                  (fp_data_img st1) (fp_DC st1) of
                                             (ok, data_img', dc') \<Rightarrow>
                                               (ok, st1\<lparr>fp_data_img := data_img', fp_DC := dc'\<rparr>))
                                        else if inst = EXTERN_INST then
                                          (let ext = fst (scan_until extern_stop content
                                                            (MOVE_TO_NOT_WHITE content i4))
                                           in if \<not> is_valid_label_name ext then (True, st1)
                                              else (True, st1\<lparr>fp_symbol_table :=
                                                       add_table_item (fp_symbol_table st1) ext 0
                                                         EXTERNAL_SYMBOL\<rparr>))
                                        else if inst = ENTRY_INST \<and> symbol \<noteq> [] then (False, st1)
                                        else (True, st1))
                                  else
                                    (let st1 =
                                           (if symbol \<noteq> []
                                            then st\<lparr>fp_symbol_table :=
                                                      add_table_item (fp_symbol_table st) symbol
                                                        (fp_IC st) CODE_SYMBOL\<rparr>
                                            else st)
                                     in (case process_code b content i4 (fp_IC st1) (fp_code_img st1) of
                                           (ok, ic', code_img') \<Rightarrow>
                                             (ok, st1\<lparr>fp_IC := ic', fp_code_img := code_img'\<rparr>))))))))"

section \<open>The second pass (second\_pass.c)\<close>

text \<open>
  \<^verbatim>\<open>process_direct_operand\<close> writes the word of a direct operand into the slot of
  \<^verbatim>\<open>curr_ic\<close>. For an external symbol it also records a reference.
\<close>

definition process_direct_operand ::
  "int \<Rightarrow> string \<Rightarrow> code_image \<Rightarrow> table \<Rightarrow> bool \<times> code_image \<times> table" where
  "process_direct_operand curr_ic operand code_img symbol_table =
     (case find_by_types symbol_table operand [DATA_SYMBOL, CODE_SYMBOL, EXTERNAL_SYMBOL] of
        None \<Rightarrow> (False, code_img, symbol_table)
      | Some entry \<Rightarrow>
          (let data_to_add = entry_value entry;
               symbol_table' =
                 (if entry_type entry = EXTERNAL_SYMBOL
                  then add_table_item symbol_table operand (curr_ic + 1) EXTERNAL_REFERENCE
                  else symbol_table);
               word_to_write =
                 Data_Word (build_data_word_direct data_to_add (entry_type entry = EXTERNAL_SYMBOL))
           in (True, code_img(curr_ic - IC_INIT_VALUE \<mapsto> word_to_write), symbol_table')))"

text \<open>
  \<^verbatim>\<open>process_spass_operand\<close> is called with \<^verbatim>\<open>curr_ic\<close> and \<^verbatim>\<open>ic\<close> pointing to the
  same counter. It drops the result of \<^verbatim>\<open>process_direct_operand\<close> and returns
  \<^verbatim>\<open>TRUE\<close> on every path, so the model returns the state only.
\<close>

definition process_spass_operand ::
  "int \<Rightarrow> string \<Rightarrow> string option \<Rightarrow> code_image \<Rightarrow> table \<Rightarrow> int \<times> code_image \<times> table" where
  "process_spass_operand ic operand1 operand2 code_img symbol_table =
     (let addr1 = get_addressing_type operand1;
          addr2 = (case operand2 of None \<Rightarrow> NONE_ADDR | Some o2 \<Rightarrow> get_addressing_type o2);
          ic1 = (if is_register_operand addr1 then ic + 1 else ic)
      in if is_register_operand addr1 \<and> addr2 \<noteq> NONE_ADDR \<and> is_register_operand addr2
         then (ic1, code_img, symbol_table)
         else
           (let ic2 = (if addr1 = IMMEDIATE_ADDR then ic1 + 1 else ic1);
                ic3 = (if addr1 = DIRECT_ADDR then ic2 + 1 else ic2);
                r1 = (if addr1 = DIRECT_ADDR
                      then snd (process_direct_operand ic3 operand1 code_img symbol_table)
                      else (code_img, symbol_table))
            in case operand2 of
                 None \<Rightarrow> (ic3, r1)
               | Some o2 \<Rightarrow>
                   (let ic4 = (if is_register_operand addr2 \<or> addr2 = IMMEDIATE_ADDR
                               then ic3 + 1 else ic3);
                        ic5 = (if addr2 = DIRECT_ADDR then ic4 + 1 else ic4);
                        r2 = (if addr2 = DIRECT_ADDR
                              then snd (process_direct_operand ic5 o2 (fst r1) (snd r1))
                              else r1)
                    in (ic5, r2))))"

definition token_stop :: "char \<Rightarrow> bool" where
  "token_stop c = (c = CHR 0x0A \<or> is_EOF c \<or> c = CHR '' '' \<or> c = CHR 0x09)"

text \<open>The state of the second pass: the counter, the code image and the symbol table.\<close>

record spass_state =
  sp_ic :: int
  sp_code_img :: code_image
  sp_symbol_table :: table

text \<open>
  \<^verbatim>\<open>add_symbols_to_code\<close> reads the length of the word in the slot of \<^verbatim>\<open>*ic\<close> without
  testing the slot. It ignores the result of \<^verbatim>\<open>analyze_operands\<close>; when that has
  failed after storing an operand, the operands it goes on to read have been freed.
  After a label it skips the first token of the line and one more character; when the
  token ends at the NUL of the line, the index is behind the NUL.
\<close>

definition add_symbols_to_code :: "string \<Rightarrow> spass_state \<Rightarrow> error + (bool \<times> spass_state)" where
  "add_symbols_to_code content st =
     (case sp_code_img st (sp_ic st - IC_INIT_VALUE) of
        None \<Rightarrow> Inl Null_Dereference
      | Some w \<Rightarrow>
          if word_length w > 0 then
            (let i0 = MOVE_TO_NOT_WHITE content 0;
                 temp = snd (find_label content);
                 i1 = (if temp \<noteq> [] then Suc (snd (scan_until token_stop content i0)) else i0);
                 i2 = MOVE_TO_NOT_WHITE content i1;
                 i3 = snd (scan_until token_stop content i2);
                 i4 = MOVE_TO_NOT_WHITE content i3;
                 ok = fst (analyze_operands content i4);
                 operands = snd (analyze_operands content i4)
             in if length content < i1 then Inl Read_Past_Terminator
                else if operands \<noteq> [] then
                  (if \<not> ok then Inl Use_After_Free
                   else
                     (case process_spass_operand (sp_ic st) (operands ! 0)
                             (if length operands > 1 then Some (operands ! 1) else None)
                             (sp_code_img st) (sp_symbol_table st) of
                        (ic', code_img', symbol_table') \<Rightarrow>
                          Inr (True, \<lparr>sp_ic = ic' + 1, sp_code_img = code_img',
                                      sp_symbol_table = symbol_table'\<rparr>)))
                else Inr (True, st\<lparr>sp_ic := sp_ic st + 1\<rparr>))
          else Inr (True, st\<lparr>sp_ic := sp_ic st + 1\<rparr>))"

text \<open>
  \<^verbatim>\<open>strtok(s, delims)\<close> on a fresh string: the first token, and the string as it reads
  from \<^verbatim>\<open>s\<close> afterwards (the delimiter that ended the token is overwritten by NUL).
\<close>

definition strtok :: "string \<Rightarrow> string \<Rightarrow> (string \<times> string) option" where
  "strtok s delims =
     (let lead = takeWhile (\<lambda>c. c \<in> set delims) s;
          tok = takeWhile (\<lambda>c. c \<notin> set delims) (dropWhile (\<lambda>c. c \<in> set delims) s)
      in if tok = [] then None else Some (tok, lead @ tok))"

text \<open>\<^verbatim>\<open>strchr(content, c)\<close> as the index of the first occurrence.\<close>

fun strchr :: "string \<Rightarrow> char \<Rightarrow> nat option" where
  "strchr [] c = None"
| "strchr (x # xs) c = (if x = c then Some 0 else map_option Suc (strchr xs c))"

text \<open>
  \<^verbatim>\<open>process_line_spass\<close>. The result carries the line buffer, which \<^verbatim>\<open>strtok\<close>
  cuts at the end of the token. The test for \<^verbatim>\<open>.entry\<close> compares the first six
  characters of the line, not the characters at the index, and the index is then
  moved by six: behind the NUL, when the dot at the index is not the first character
  and the line is short.
\<close>

definition process_line_spass ::
  "string \<Rightarrow> spass_state \<Rightarrow> error + (bool \<times> string \<times> spass_state)" where
  "process_line_spass content st =
     (let i0 = MOVE_TO_NOT_WHITE content 0
      in if char_at content i0 = CHR '';'' \<or> char_at content i0 = CHR 0x0A
         then Inr (True, content, st)
         else
           (let i1 = (case strchr content (CHR '':'') of None \<Rightarrow> i0 | Some k \<Rightarrow> Suc k);
                i2 = MOVE_TO_NOT_WHITE content i1
            in if char_at content i2 = CHR ''.'' then
                 (if take 6 content = ''.entry'' then
                    (let i3 = MOVE_TO_NOT_WHITE content (i2 + 6)
                     in if length content < i2 + 6 then Inl Read_Past_Terminator
                        else case strtok (drop i3 content) [CHR '' '', CHR 0x0A, CHR 0x09] of
                          None \<Rightarrow> Inr (False, content, st)
                        | Some (token, buf) \<Rightarrow>
                            (let content' = take i3 content @ buf
                             in if find_by_types (sp_symbol_table st) token [ENTRY_SYMBOL] = None
                                then
                                  (case strtok buf [CHR 0x0A] of
                                     None \<Rightarrow> Inr (False, content', st)
                                   | Some (token2, buf2) \<Rightarrow>
                                       (let token3 = (if hd token2 = CHR ''&'' then tl token2 else token2)
                                        in case find_by_types (sp_symbol_table st) token3
                                                  [DATA_SYMBOL, CODE_SYMBOL] of
                                             None \<Rightarrow> Inr (False, content', st)
                                           | Some entry \<Rightarrow>
                                               Inr (True, content',
                                                    st\<lparr>sp_symbol_table :=
                                                         add_table_item (sp_symbol_table st) token3
                                                           (entry_value entry) ENTRY_SYMBOL\<rparr>)))
                                else Inr (True, content', st)))
                  else Inr (True, content, st))
               else
                 (case add_symbols_to_code content st of
                    Inl e \<Rightarrow> Inl e
                  | Inr (ok, st') \<Rightarrow> Inr (ok, content, st'))))"

section \<open>The output files (writefiles.c)\<close>

definition digit_char :: "int \<Rightarrow> char" where
  "digit_char d = ''0123456789'' ! nat d"

text \<open>The digits of a number that is not negative, in a base from 2 to 10.\<close>

function digits :: "int \<Rightarrow> int \<Rightarrow> string" where
  "digits b n =
     (if n < b \<or> b < 2 then [digit_char n] else digits b (n div b) @ [digit_char (n mod b)])"
  by pat_completeness auto
termination
proof (relation "measure (\<lambda>(b, n). nat n)", goal_cases)
  case 1
  show ?case by simp
next
  case (2 b n)
  then have "2 \<le> b" and "b \<le> n" by auto
  then have "0 < n" by simp
  have "n div b < n"
    using \<open>2 \<le> b\<close> \<open>0 < n\<close> by (simp add: int_div_less_self)
  moreover have "0 \<le> n div b"
    using \<open>2 \<le> b\<close> \<open>0 < n\<close> by (simp add: pos_imp_zdiv_nonneg_iff)
  ultimately show ?case by simp
qed

declare digits.simps [simp del]

definition zero_pad :: "nat \<Rightarrow> string \<Rightarrow> string" where
  "zero_pad w s = replicate (w - length s) (CHR ''0'') @ s"

text \<open>\<^verbatim>\<open>%.<prec>ld\<close> and \<^verbatim>\<open>%.<prec>lo\<close> of \<^verbatim>\<open>printf\<close>, for a \<^verbatim>\<open>long\<close>.\<close>

definition printf_ld :: "nat \<Rightarrow> int \<Rightarrow> string" where
  "printf_ld prec v =
     (if v < 0 then CHR ''-'' # zero_pad prec (digits 10 (- v))
      else zero_pad prec (digits 10 v))"

definition printf_lo :: "nat \<Rightarrow> int \<Rightarrow> string" where
  "printf_lo prec v = zero_pad prec (digits 8 (v mod 2 ^ 64))"

text \<open>
  The value that \<^verbatim>\<open>write_ob\<close> prints for a code word: the bit-fields, promoted to
  \<^verbatim>\<open>int\<close>, shifted and joined, with no mask.
\<close>

definition code_word_value :: "code_word \<Rightarrow> int" where
  "code_word_value codeword =
     push_bit 10 (uint (opcode codeword)) OR
     push_bit 8 (uint (src_addressing codeword)) OR
     push_bit 6 (uint (src_register codeword)) OR
     push_bit 3 (uint (dest_addressing codeword)) OR
     push_bit 0 (uint (dest_register codeword)) OR
     push_bit 3 (uint (funct codeword)) OR
     uint (ARE codeword)"

definition KEEP_ONLY_15_LSB :: "'a::len word \<Rightarrow> 'a word" where
  "KEEP_ONLY_15_LSB v = v AND 0x7FFF"

definition data_word_value :: "data_word \<Rightarrow> int" where
  "data_word_value dw = uint (push_bit 3 (KEEP_ONLY_15_LSB (data dw)) OR ucast (data_ARE dw))"

definition machine_word_value :: "machine_word \<Rightarrow> int" where
  "machine_word_value w =
     (case w of Code_Word n cw \<Rightarrow> code_word_value cw | Data_Word dw \<Rightarrow> data_word_value dw)"

text \<open>
  The loop of \<^verbatim>\<open>write_ob\<close> over the code image. For a slot that is \<^verbatim>\<open>NULL\<close> it
  prints the \<^verbatim>\<open>val\<close> of the slot before; \<^verbatim>\<open>val\<close> has no initial value.
\<close>

fun write_ob_code :: "code_image \<Rightarrow> int list \<Rightarrow> int option \<Rightarrow> error + string" where
  "write_ob_code code_img [] val = Inr []"
| "write_ob_code code_img (i # is) val =
     (let val' = (case code_img i of None \<Rightarrow> val | Some w \<Rightarrow> Some (machine_word_value w))
      in case val' of
           None \<Rightarrow> Inl Uninitialised_Read
         | Some v \<Rightarrow>
             (case write_ob_code code_img is val' of
                Inl e \<Rightarrow> Inl e
              | Inr out \<Rightarrow>
                  Inr (CHR 0x0A # printf_ld 7 (i + 100) @ '' '' @ printf_lo 6 v @ out)))"

definition write_ob_data :: "data_image \<Rightarrow> int \<Rightarrow> int \<Rightarrow> string" where
  "write_ob_data data_img icf dcf =
     concat (map (\<lambda>i. CHR 0x0A # printf_ld 7 (icf + i) @ '' '' @
                        printf_lo 6 (uint (KEEP_ONLY_15_LSB (word_of_int (data_img i) :: 64 word))))
                 [0..dcf - 1])"

definition write_ob :: "code_image \<Rightarrow> data_image \<Rightarrow> int \<Rightarrow> int \<Rightarrow> error + string" where
  "write_ob code_img data_img icf dcf =
     (case write_ob_code code_img [0..icf - IC_INIT_VALUE - 1] None of
        Inl e \<Rightarrow> Inl e
      | Inr code_lines \<Rightarrow>
          Inr (printf_ld 1 (icf - IC_INIT_VALUE) @ '' '' @ printf_ld 1 dcf @ code_lines @
               write_ob_data data_img icf dcf))"

definition table_line :: "table_entry \<Rightarrow> string" where
  "table_line e = entry_key e @ '' '' @ printf_ld 7 (entry_value e)"

fun write_table_to_file :: "table \<Rightarrow> string" where
  "write_table_to_file [] = []"
| "write_table_to_file (e # rest) =
     table_line e @ concat (map (\<lambda>e'. CHR 0x0A # table_line e') rest)"

text \<open>The contents of the three files written for one source file.\<close>

record output_files =
  ob_file :: string
  ext_file :: string
  ent_file :: string

text \<open>
  \<^verbatim>\<open>write_output_files\<close> reports a symbol table that is \<^verbatim>\<open>NULL\<close> and goes on: the two
  calls of \<^verbatim>\<open>filter_table_by_type\<close> come before anything is written.
\<close>

definition write_output_files ::
  "code_image \<Rightarrow> data_image \<Rightarrow> int \<Rightarrow> int \<Rightarrow> table \<Rightarrow> error + output_files" where
  "write_output_files code_img data_img icf dcf symbol_table =
     (case filter_table_by_type symbol_table EXTERNAL_REFERENCE of
        Inl e \<Rightarrow> Inl e
      | Inr externals \<Rightarrow>
          (case filter_table_by_type symbol_table ENTRY_SYMBOL of
             Inl e \<Rightarrow> Inl e
           | Inr entries \<Rightarrow>
               (case write_ob code_img data_img icf dcf of
                  Inl e \<Rightarrow> Inl e
                | Inr ob \<Rightarrow>
                    Inr \<lparr>ob_file = ob,
                         ext_file = write_table_to_file externals,
                         ent_file = write_table_to_file entries\<rparr>)))"

section \<open>The macro pre-processor (macros.c)\<close>

text \<open>
  \<^verbatim>\<open>fgets(line, n, file)\<close> on the rest of a file that is not at its end: at most
  \<^verbatim>\<open>n - 1\<close> characters, up to and with the first newline.
\<close>

definition fgets :: "nat \<Rightarrow> string \<Rightarrow> string" where
  "fgets n s =
     (let p = length (takeWhile (\<lambda>c. c \<noteq> CHR 0x0A) s)
      in take (min (n - 1) (if p < length s then p + 1 else p)) s)"

lemma fgets_length: "s \<noteq> [] \<Longrightarrow> 2 \<le> n \<Longrightarrow> 0 < length (fgets n s)"
  by (cases s) (auto simp: fgets_def Let_def)

lemma fgets_drop_less:
  "s \<noteq> [] \<Longrightarrow> 2 \<le> n \<Longrightarrow> length (drop (length (fgets n s)) s) < length s"
  using fgets_length [of s n] by simp

function read_lines :: "nat \<Rightarrow> string \<Rightarrow> string list" where
  "read_lines n s =
     (if s = [] \<or> n < 2 then []
      else fgets n s # read_lines n (drop (length (fgets n s)) s))"
  by pat_completeness auto
termination
proof (relation "measure (\<lambda>(n, s). length s)", goal_cases)
  case 1
  show ?case by simp
next
  case (2 n s)
  then have "s \<noteq> []" and "2 \<le> n" by auto
  then have "0 < length (fgets n s)" by (rule fgets_length)
  with \<open>s \<noteq> []\<close> show ?case by simp
qed

declare read_lines.simps [simp del]

record Macro =
  macro_name :: string
  macro_lines :: "string list"

abbreviation SIZE_LINE :: nat where "SIZE_LINE \<equiv> 82"
abbreviation TABLE_SIZE :: nat where "TABLE_SIZE \<equiv> 100"

text \<open>The hash table: for every bucket the chain of its macros, oldest first.\<close>

type_synonym HashTable = "nat \<Rightarrow> Macro list"

text \<open>
  \<^verbatim>\<open>hash\<close> computes in \<^verbatim>\<open>unsigned int\<close>: every step wraps around at \<open>2 ^ 32\<close>.
\<close>

definition hash :: "string \<Rightarrow> nat" where
  "hash str =
     nat (foldl (\<lambda>h c. (h * 31 + char_to_long c) mod 2 ^ 32) 0 str mod int TABLE_SIZE)"

text \<open>
  \<^verbatim>\<open>add_macro\<close> puts a macro with no lines at the end of the chain of its bucket and
  returns a pointer to it: here the bucket and the position in the chain.
\<close>

definition add_macro :: "HashTable \<Rightarrow> string \<Rightarrow> HashTable \<times> (nat \<times> nat)" where
  "add_macro tbl name =
     (let index = hash name
      in (tbl(index := tbl index @ [\<lparr>macro_name = name, macro_lines = []\<rparr>]),
          (index, length (tbl index))))"

definition find_macro :: "HashTable \<Rightarrow> string \<Rightarrow> Macro option" where
  "find_macro tbl name = find (\<lambda>m. macro_name m = name) (tbl (hash name))"

fun strstr_found :: "string \<Rightarrow> string \<Rightarrow> bool" where
  "strstr_found [] needle = (needle = [])"
| "strstr_found (x # xs) needle =
     (take (length needle) (x # xs) = needle \<or> strstr_found xs needle)"

definition isspace_c :: "char \<Rightarrow> bool" where
  "isspace_c c = (c \<in> set [CHR '' '', CHR 0x09, CHR 0x0A, CHR 0x0B, CHR 0x0C, CHR 0x0D])"

text \<open>
  The \<^verbatim>\<open>%s\<close> of \<^verbatim>\<open>sscanf\<close>: white space is skipped, then the characters up to the next
  white space are stored. When there is none, nothing is stored and the buffer keeps
  whatever it held.
\<close>

definition sscanf_s :: "string \<Rightarrow> string option" where
  "sscanf_s s =
     (let tok = takeWhile (\<lambda>c. \<not> isspace_c c) (dropWhile isspace_c s)
      in if tok = [] then None else Some tok)"

record macro_state =
  ms_table :: HashTable
  isMacroOpen :: bool
  currentMacro :: "(nat \<times> nat) option"
  ms_output :: string

text \<open>
  The body of the \<^verbatim>\<open>while (fgets(line, SIZE_LINE, fromUser))\<close> loop of \<^verbatim>\<open>macro\<close>. The
  buffers \<^verbatim>\<open>macroName\<close> and \<^verbatim>\<open>firstWord\<close> are locals without an initial value: when
  \<^verbatim>\<open>sscanf\<close> stores nothing, the name that is looked up next was never written.
\<close>

definition macro_line :: "string \<Rightarrow> macro_state \<Rightarrow> error + macro_state" where
  "macro_line line st =
     (if take 5 line = ''macr '' then
        (case sscanf_s (drop 4 line) of
           None \<Rightarrow> Inl Uninitialised_Read
         | Some macroName \<Rightarrow>
             (case add_macro (ms_table st) macroName of
                (tbl', ptr) \<Rightarrow>
                  Inr (st\<lparr>ms_table := tbl', currentMacro := Some ptr, isMacroOpen := True\<rparr>)))
      else if strstr_found line ''endmacr'' then
        Inr (st\<lparr>isMacroOpen := False, currentMacro := None\<rparr>)
      else if isMacroOpen st then
        (case currentMacro st of
           None \<Rightarrow> Inl Null_Dereference
         | Some (index, k) \<Rightarrow>
             (let chain = ms_table st index; m = chain ! k
              in if length (macro_lines m) < SIZE_LINE
                 then Inr (st\<lparr>ms_table :=
                               (ms_table st)(index :=
                                  chain[k := m\<lparr>macro_lines := macro_lines m @ [line]\<rparr>])\<rparr>)
                 else Inr st))
      else
        (case sscanf_s line of
           None \<Rightarrow> Inl Uninitialised_Read
         | Some firstWord \<Rightarrow>
             (case find_macro (ms_table st) firstWord of
                Some foundMacro \<Rightarrow>
                  Inr (st\<lparr>ms_output := ms_output st @ concat (macro_lines foundMacro)\<rparr>)
              | None \<Rightarrow> Inr (st\<lparr>ms_output := ms_output st @ line\<rparr>))))"

fun macro_loop :: "string list \<Rightarrow> macro_state \<Rightarrow> error + macro_state" where
  "macro_loop [] st = Inr st"
| "macro_loop (line # rest) st =
     (case macro_line line st of
        Inl e \<Rightarrow> Inl e
      | Inr st' \<Rightarrow> macro_loop rest st')"

definition init_table :: HashTable where
  "init_table = (\<lambda>i. [])"

definition macro_init :: macro_state where
  "macro_init = \<lparr>ms_table = init_table, isMacroOpen = False, currentMacro = None, ms_output = []\<rparr>"

text \<open>\<^verbatim>\<open>macro\<close>, from the text of the \<^verbatim>\<open>.as\<close> file to the text of the \<^verbatim>\<open>.am\<close> file.\<close>

definition macro :: "string \<Rightarrow> error + string" where
  "macro as_file =
     (case macro_loop (read_lines SIZE_LINE as_file) macro_init of
        Inl e \<Rightarrow> Inl e
      | Inr st \<Rightarrow> Inr (ms_output st))"

section \<open>The driver (process\_file.c)\<close>

definition MAX_LINE_LENGTH :: nat where
  "MAX_LINE_LENGTH = 80"

text \<open>
  The first loop of \<^verbatim>\<open>process_file\<close>, over the rest of the \<^verbatim>\<open>.am\<close> file. A chunk
  without a newline that did not end at the end of the file is a line too long: it is
  reported and the rest of the line is skipped. The loop returns the success flag, the
  state, and the line buffer as the last \<^verbatim>\<open>fgets\<close> left it.
\<close>

function fpass_loop ::
  "argument_binding \<Rightarrow> string \<Rightarrow> bool \<Rightarrow> fpass_state \<Rightarrow> string \<Rightarrow> bool \<times> fpass_state \<times> string" where
  "fpass_loop b input is_success st temp_line =
     (if input = [] then (is_success, st, temp_line)
      else
        (let line = fgets (MAX_LINE_LENGTH + 2) input;
             rest = drop (length line) input
         in if CHR 0x0A \<notin> set line \<and> \<not> length line < MAX_LINE_LENGTH + 1 then
              fpass_loop b (drop 1 (dropWhile (\<lambda>c. c \<noteq> CHR 0x0A) rest)) False st line
            else
              (case process_line_fpass b line st of
                 (ok, st') \<Rightarrow> fpass_loop b rest (is_success \<and> ok) st' line)))"
  by pat_completeness auto
termination
proof (relation "measure (\<lambda>(b, input, is_success, st, temp_line). length input)", goal_cases)
  case 1
  show ?case by simp
next
  case (2 b input is_success st temp_line line rest)
  have "length rest < length input"
    unfolding 2 using fgets_drop_less [of input "MAX_LINE_LENGTH + 2"] 2(1)
    by (simp add: MAX_LINE_LENGTH_def)
  moreover have "length (dropWhile (\<lambda>c. c \<noteq> CHR 0x0A) rest) \<le> length rest"
    by (rule length_dropWhile_le)
  ultimately have "length (drop 1 (dropWhile (\<lambda>c. c \<noteq> CHR 0x0A) rest)) < length input"
    by simp
  then show ?case by simp
next
  case (3 b input is_success st temp_line line rest x y)
  have "length rest < length input"
    unfolding 3 using fgets_drop_less [of input "MAX_LINE_LENGTH + 2"] 3(1)
    by (simp add: MAX_LINE_LENGTH_def)
  then show ?case by simp
qed

declare fpass_loop.simps [simp del]

text \<open>
  The second loop, \<^verbatim>\<open>for (...; !feof(file_des); ...)\<close>, reads with
  \<^verbatim>\<open>fgets(temp_line, MAX_LINE_LENGTH, file_des)\<close> and does not test its result: at the
  end of the file the buffer keeps the line before, and that line is handled once
  more unless the file ended without a newline. A line is handed to
  \<^verbatim>\<open>process_line_spass\<close> when the slot of the counter holds a word or the line begins
  with a dot.
\<close>

function spass_loop ::
  "string \<Rightarrow> bool \<Rightarrow> bool \<Rightarrow> spass_state \<Rightarrow> string \<Rightarrow> error + (bool \<times> spass_state)" where
  "spass_loop input at_eof is_success st temp_line =
     (if at_eof then Inr (is_success, st)
      else
        (let line = (if input = [] then temp_line else fgets MAX_LINE_LENGTH input);
             rest = (if input = [] then [] else drop (length line) input);
             at_eof' = (input = [] \<or> (CHR 0x0A \<notin> set line \<and> length line < MAX_LINE_LENGTH - 1));
             i = MOVE_TO_NOT_WHITE line 0
         in if sp_code_img st (sp_ic st - IC_INIT_VALUE) \<noteq> None \<or> char_at line i = CHR ''.''
            then
              (case process_line_spass line st of
                 Inl e \<Rightarrow> Inl e
               | Inr (ok, line', st') \<Rightarrow> spass_loop rest at_eof' (is_success \<and> ok) st' line')
            else spass_loop rest at_eof' is_success st line))"
  by pat_completeness auto
termination
proof (relation "measure (\<lambda>(input, at_eof, is_success, st, temp_line).
                             2 * length input + (if at_eof then 0 else 1))", goal_cases)
  case 1
  show ?case by simp
next
  case (2 input at_eof is_success st temp_line line rest at_eof' i x y z w)
  show ?case
  proof (cases "input = []")
    case True
    then show ?thesis using 2 by simp
  next
    case False
    then have "length rest < length input"
      using fgets_drop_less [of input MAX_LINE_LENGTH] 2(2,3)
      by (simp add: MAX_LINE_LENGTH_def)
    then show ?thesis by simp
  qed
next
  case (3 input at_eof is_success st temp_line line rest at_eof' i)
  show ?case
  proof (cases "input = []")
    case True
    then show ?thesis using 3 by simp
  next
    case False
    then have "length rest < length input"
      using fgets_drop_less [of input MAX_LINE_LENGTH] 3(2,3)
      by (simp add: MAX_LINE_LENGTH_def)
    then show ?thesis by simp
  qed
qed

declare spass_loop.simps [simp del]

text \<open>
  \<^verbatim>\<open>code_img\<close> is a local array of \<^verbatim>\<open>process_file\<close> without an initial value, and the
  second loop tests its slots against \<^verbatim>\<open>NULL\<close>; the model starts it with every slot
  \<^verbatim>\<open>NULL\<close>, the state that this test presumes. \<^verbatim>\<open>temp_line\<close> is not a local, so it
  starts empty.
\<close>

definition fpass_init :: fpass_state where
  "fpass_init =
     \<lparr>fp_IC = IC_INIT_VALUE, fp_DC = 0, fp_code_img = (\<lambda>i. None), fp_data_img = (\<lambda>i. 0),
      fp_symbol_table = []\<rparr>"

text \<open>
  \<^verbatim>\<open>process_file\<close>, from the text of the \<^verbatim>\<open>.as\<close> file: the success flag, the files
  written (if any), and the symbol table, the code image and the final counters for
  inspection.
\<close>

record file_result =
  fr_success :: bool
  fr_files :: "output_files option"
  fr_symbol_table :: table
  fr_code_img :: code_image
  fr_icf :: int
  fr_dcf :: int

definition assemble :: "argument_binding \<Rightarrow> string \<Rightarrow> error + file_result" where
  "assemble b am_file =
     (case fpass_loop b am_file True fpass_init [] of
        (is_success, st, temp_line) \<Rightarrow>
          (let icf = fp_IC st; dcf = fp_DC st
           in if is_success then
                (case spass_loop am_file False True
                        \<lparr>sp_ic = IC_INIT_VALUE, sp_code_img = fp_code_img st,
                         sp_symbol_table = add_value_to_type (fp_symbol_table st) icf DATA_SYMBOL\<rparr>
                        temp_line of
                   Inl e \<Rightarrow> Inl e
                 | Inr (is_success2, st2) \<Rightarrow>
                     if is_success2 then
                       (case write_output_files (sp_code_img st2) (fp_data_img st) icf dcf
                               (sp_symbol_table st2) of
                          Inl e \<Rightarrow> Inl e
                        | Inr files \<Rightarrow>
                            Inr \<lparr>fr_success = True, fr_files = Some files,
                                 fr_symbol_table = sp_symbol_table st2,
                                 fr_code_img = sp_code_img st2, fr_icf = icf, fr_dcf = dcf\<rparr>)
                     else
                       Inr \<lparr>fr_success = False, fr_files = None,
                            fr_symbol_table = sp_symbol_table st2,
                            fr_code_img = sp_code_img st2, fr_icf = icf, fr_dcf = dcf\<rparr>)
              else
                Inr \<lparr>fr_success = False, fr_files = None, fr_symbol_table = fp_symbol_table st,
                     fr_code_img = fp_code_img st, fr_icf = icf, fr_dcf = dcf\<rparr>))"

definition process_file :: "argument_binding \<Rightarrow> string \<Rightarrow> error + file_result" where
  "process_file b as_file =
     (case macro as_file of
        Inl e \<Rightarrow> Inl e
      | Inr am_file \<Rightarrow> assemble b am_file)"

section \<open>Definitions that follow the words of the specification\<close>

text \<open>
  The table of section 4.2 of the specification, mnemonic by mnemonic, as the
  specification gives it (opcode, then funct). It is compared with \<^const>\<open>lookup_table\<close>.
\<close>

definition spec_opcode_table :: "(string \<times> opcode \<times> funct) list" where
  "spec_opcode_table =
     [(''mov'', 0, 0), (''cmp'', 1, 0), (''add'', 2, 1), (''sub'', 2, 2), (''lea'', 4, 0),
      (''clr'', 5, 1), (''not'', 5, 2), (''inc'', 5, 3), (''dec'', 5, 4),
      (''jmp'', 9, 1), (''bne'', 9, 2), (''jsr'', 9, 3),
      (''red'', 11, 0), (''prn'', 12, 0), (''rts'', 14, 0), (''stop'', 15, 0)]"


text \<open>
  The lines of an output file: the text between its newline characters. It is used to
  say in which order a file lists the entries of a table.
\<close>

fun lines_of :: "string \<Rightarrow> string list" where
  "lines_of [] = [[]]"
| "lines_of (c # cs) =
     (if c = CHR 0x0A then [] # lines_of cs
      else (case lines_of cs of [] \<Rightarrow> [[c]] | l # ls \<Rightarrow> (c # l) # ls))"

section \<open>Order of the symbol table\<close>

declare filter_table_loop.simps [simp del]

lemma add_table_item_walk_set:
  "set (map entry_value (add_table_item_walk t e)) = insert (entry_value e) (set (map entry_value t))"
  by (induction t) auto

lemma add_table_item_walk_sorted:
  "sorted (map entry_value t) \<Longrightarrow> sorted (map entry_value (add_table_item_walk t e))"
proof (induction t)
  case Nil
  then show ?case by simp
next
  case (Cons c cs)
  show ?case
  proof (cases "entry_value c < entry_value e")
    case True
    have "sorted (map entry_value (add_table_item_walk cs e))"
      using Cons by simp
    moreover have "\<forall>y \<in> set (map entry_value (add_table_item_walk cs e)). entry_value c \<le> y"
      using Cons.prems True by (auto simp only: add_table_item_walk_set sorted_simps list.simps)
    ultimately show ?thesis using True by simp
  next
    case False
    then show ?thesis using Cons.prems by auto
  qed
qed

lemma add_table_item_sorted:
  "sorted (map entry_value t) \<Longrightarrow> sorted (map entry_value (add_table_item t k v ty))"
proof (cases t)
  case Nil
  then show ?thesis by (simp add: add_table_item_def)
next
  case (Cons h rest)
  assume s: "sorted (map entry_value t)"
  let ?e = "\<lparr>entry_value = v, entry_key = k, entry_type = ty\<rparr>"
  show ?thesis
  proof (cases "entry_value h > v")
    case True
    then show ?thesis using s Cons by (auto simp: add_table_item_def)
  next
    case False
    have "sorted (map entry_value (add_table_item_walk rest ?e))"
      using s Cons add_table_item_walk_sorted by simp
    moreover have "\<forall>y \<in> set (map entry_value (add_table_item_walk rest ?e)). entry_value h \<le> y"
      using s Cons False by (auto simp only: add_table_item_walk_set sorted_simps list.simps table_entry.select_convs)
    ultimately show ?thesis using False Cons by (simp add: add_table_item_def)
  qed
qed

lemma filter_table_loop_sorted:
  "sorted (map entry_value new_table) \<Longrightarrow>
   sorted (map entry_value (filter_table_loop e rest ty new_table))"
proof (induction rest arbitrary: e new_table)
  case Nil
  then show ?case
    by (subst filter_table_loop.simps) (simp add: add_table_item_sorted)
next
  case (Cons e' rest')
  let ?n = "if entry_type e = ty
            then add_table_item new_table (entry_key e) (entry_value e) (entry_type e)
            else new_table"
  have "sorted (map entry_value ?n)"
    using Cons.prems by (simp add: add_table_item_sorted)
  then have "sorted (map entry_value (filter_table_loop e' rest' ty ?n))"
    by (rule Cons.IH)
  moreover have "filter_table_loop e (e' # rest') ty new_table = filter_table_loop e' rest' ty ?n"
    by (subst filter_table_loop.simps) (simp add: Let_def)
  ultimately show ?case by simp
qed


lemma lines_of_not_Nil: "lines_of s \<noteq> []"
  by (induction s) (auto split: list.splits)

lemma lines_of_prefix:
  "CHR 0x0A \<notin> set l \<Longrightarrow> lines_of (l @ s) = (l @ hd (lines_of s)) # tl (lines_of s)"
proof (induction l)
  case Nil
  then show ?case using lines_of_not_Nil [of s] by simp
next
  case (Cons c l)
  then have "c \<noteq> CHR 0x0A" and "CHR 0x0A \<notin> set l" by auto
  then show ?case using Cons.IH by simp
qed

lemma lines_of_line: "CHR 0x0A \<notin> set l \<Longrightarrow> lines_of (l @ CHR 0x0A # s) = l # lines_of s"
  by (simp add: lines_of_prefix)

lemma lines_of_last: "CHR 0x0A \<notin> set l \<Longrightarrow> lines_of l = [l]"
  using lines_of_prefix [of l "[]"] by simp

lemma digits_chars: "set (digits 10 n) \<subseteq> set ''0123456789''"
proof (induction "10 :: int" n rule: digits.induct)
  case (1 n)
  show ?case
  proof (cases "n < 10")
    case True
    then have "nat n < 10" by simp
    then have "digit_char n \<in> set ''0123456789''"
      unfolding digit_char_def by (intro nth_mem) simp
    then show ?thesis using True by (subst digits.simps) simp
  next
    case False
    then have "set (digits 10 (n div 10)) \<subseteq> set ''0123456789''" using 1 by simp
    moreover have "nat (n mod 10) < 10" by simp
    then have "digit_char (n mod 10) \<in> set ''0123456789''"
      unfolding digit_char_def by (intro nth_mem) simp
    ultimately show ?thesis using False by (subst digits.simps) simp
  qed
qed

lemma printf_ld_no_newline: "CHR 0x0A \<notin> set (printf_ld prec v)"
proof -
  have "CHR 0x0A \<notin> set (digits 10 n)" for n
    using digits_chars [of n] by auto
  then show ?thesis by (auto simp: printf_ld_def zero_pad_def)
qed

lemma table_line_no_newline:
  "CHR 0x0A \<notin> set (entry_key e) \<Longrightarrow> CHR 0x0A \<notin> set (table_line e)"
  by (simp add: table_line_def printf_ld_no_newline)

lemma lines_of_table_lines:
  "CHR 0x0A \<notin> set l \<Longrightarrow> \<forall>e \<in> set rest. CHR 0x0A \<notin> set (entry_key e) \<Longrightarrow>
   lines_of (l @ concat (map (\<lambda>e'. CHR 0x0A # table_line e') rest)) = l # map table_line rest"
proof (induction rest arbitrary: l)
  case Nil
  then show ?case by (simp add: lines_of_last)
next
  case (Cons e rest)
  have "lines_of (table_line e @ concat (map (\<lambda>e'. CHR 0x0A # table_line e') rest)) =
        table_line e # map table_line rest"
    using Cons.prems by (intro Cons.IH) (simp_all add: table_line_no_newline)
  then show ?case using Cons.prems(1) by (simp add: lines_of_line)
qed

lemma write_table_to_file_lines:
  "tab \<noteq> [] \<Longrightarrow> \<forall>e \<in> set tab. CHR 0x0A \<notin> set (entry_key e) \<Longrightarrow>
   lines_of (write_table_to_file tab) = map table_line tab"
  by (cases tab) (simp_all add: lines_of_table_lines table_line_no_newline)

lemma add_table_item_walk_entries:
  "set (add_table_item_walk t e) = insert e (set t)"
  by (induction t) auto

lemma add_table_item_entries:
  "set (add_table_item t k v ty) = insert \<lparr>entry_value = v, entry_key = k, entry_type = ty\<rparr> (set t)"
  by (cases t) (auto simp: add_table_item_def Let_def add_table_item_walk_entries)

lemma filter_table_loop_entries:
  "set (filter_table_loop e rest ty new_table) =
     set new_table \<union> {x \<in> set (e # rest). entry_type x = ty}"
proof (induction rest arbitrary: e new_table)
  case Nil
  show ?case
    by (subst filter_table_loop.simps) (auto simp: add_table_item_entries)
next
  case (Cons e' rest')
  show ?case
    by (subst filter_table_loop.simps) (auto simp: Let_def add_table_item_entries Cons.IH)
qed

lemma filter_table_by_type_sorted:
  "filter_table_by_type t ty = Inr r \<Longrightarrow>
   sorted (map entry_value r) \<and> set r = {x \<in> set t. entry_type x = ty}"
proof -
  assume f: "filter_table_by_type t ty = Inr r"
  then obtain e rest where t: "t = e # rest" and r: "r = filter_table_loop e rest ty []"
    by (cases t) (auto simp: filter_table_by_type_def)
  show ?thesis
    using filter_table_loop_sorted [of "[]" e rest ty] filter_table_loop_entries [of e rest ty "[]"]
    unfolding t r by simp
qed








section \<open>Claims\<close>

subsection \<open>C3: the opcode and funct of every mnemonic\<close>

text \<open>
  C3. The specification, and the comments of \<^verbatim>\<open>enum funct\<close> in globals.h (\<^verbatim>\<open>OPCODE 2\<close>
  over the functs of \<open>add\<close> and \<open>sub\<close>, \<^verbatim>\<open>OPCODE 5\<close> over those of \<open>clr\<close>, \<open>not\<close>,
  \<open>inc\<close>, \<open>dec\<close>, \<^verbatim>\<open>OPCODE 9\<close> over those of \<open>jmp\<close>, \<open>bne\<close>, \<open>jsr\<close>), give \<open>sub\<close>
  opcode 2 and \<open>jmp\<close>, \<open>bne\<close>, \<open>jsr\<close> opcode 9. The assembler looks up opcode 3 for
  \<open>sub\<close>, 10 for \<open>bne\<close> and 13 for \<open>jsr\<close> (and 6, 7, 8 for \<open>not\<close>, \<open>inc\<close>, \<open>dec\<close>) and
  stores it in the code word; the functs are those of the specification.
\<close>

theorem opcode_table_C3:
  "get_opcode_func ''sub'' = (3, 2) \<and> map_of spec_opcode_table ''sub'' = Some (2, 2) \<and>
   get_opcode_func ''bne'' = (10, 2) \<and> map_of spec_opcode_table ''bne'' = Some (9, 2) \<and>
   get_opcode_func ''jsr'' = (13, 3) \<and> map_of spec_opcode_table ''jsr'' = Some (9, 3) \<and>
   get_opcode_func ''not'' = (6, 2) \<and> map_of spec_opcode_table ''not'' = Some (5, 2) \<and>
   get_opcode_func ''inc'' = (7, 3) \<and> map_of spec_opcode_table ''inc'' = Some (5, 3) \<and>
   get_opcode_func ''dec'' = (8, 4) \<and> map_of spec_opcode_table ''dec'' = Some (5, 4) \<and>
   map_option opcode (get_code_word 3 2 [''r1'', ''r2'']) = Some 3 \<and>
   map (\<lambda>m. snd (get_opcode_func m)) (map fst spec_opcode_table) =
     map (\<lambda>(m, op, f). f) spec_opcode_table"
  by code_simp

subsection \<open>C8: the order of the symbol table\<close>

text \<open>
  C8, as amended. Insertion keeps a symbol table that is ascending by value ascending.
  Every table that \<^const>\<open>filter_table_by_type\<close> builds holds the entries of the
  requested kind, ascending by value, whatever the order of the table it filters.
  \<^const>\<open>write_output_files\<close> writes the \<open>.ext\<close> and \<open>.ent\<close> files from two such
  tables, and \<^const>\<open>write_table_to_file\<close> writes one line for every entry, in the
  order of the table: the output files list their entries in ascending order of value.
  (Adding the final instruction counter to the values of the data symbols does not keep
  the symbol table itself ascending.)
\<close>

theorem symbol_table_order_C8:
  "(sorted (map entry_value t) \<longrightarrow> sorted (map entry_value (add_table_item t k v ty))) \<and>
   (filter_table_by_type t ty = Inr r \<longrightarrow>
      sorted (map entry_value r) \<and> set r = {x \<in> set t. entry_type x = ty}) \<and>
   (write_output_files code_img data_img icf dcf t = Inr files \<longrightarrow>
      (\<exists>externals entries.
          filter_table_by_type t EXTERNAL_REFERENCE = Inr externals \<and>
          filter_table_by_type t ENTRY_SYMBOL = Inr entries \<and>
          sorted (map entry_value externals) \<and> sorted (map entry_value entries) \<and>
          ext_file files = write_table_to_file externals \<and>
          ent_file files = write_table_to_file entries)) \<and>
   (tab \<noteq> [] \<and> (\<forall>e \<in> set tab. CHR 0x0A \<notin> set (entry_key e)) \<longrightarrow>
      lines_of (write_table_to_file tab) = map table_line tab)"
proof (intro conjI impI)
  assume "sorted (map entry_value t)"
  then show "sorted (map entry_value (add_table_item t k v ty))"
    by (rule add_table_item_sorted)
next
  assume "filter_table_by_type t ty = Inr r"
  then show "sorted (map entry_value r)" by (simp add: filter_table_by_type_sorted)
next
  assume "filter_table_by_type t ty = Inr r"
  then show "set r = {x \<in> set t. entry_type x = ty}" by (simp add: filter_table_by_type_sorted)
next
  assume w: "write_output_files code_img data_img icf dcf t = Inr files"
  then obtain externals where x: "filter_table_by_type t EXTERNAL_REFERENCE = Inr externals"
    by (auto simp: write_output_files_def split: sum.splits)
  from w obtain entries where n: "filter_table_by_type t ENTRY_SYMBOL = Inr entries"
    by (auto simp: write_output_files_def split: sum.splits)
  have "ext_file files = write_table_to_file externals"
    and "ent_file files = write_table_to_file entries"
    using w x n by (auto simp: write_output_files_def split: sum.splits)
  then show "\<exists>externals entries.
          filter_table_by_type t EXTERNAL_REFERENCE = Inr externals \<and>
          filter_table_by_type t ENTRY_SYMBOL = Inr entries \<and>
          sorted (map entry_value externals) \<and> sorted (map entry_value entries) \<and>
          ext_file files = write_table_to_file externals \<and>
          ent_file files = write_table_to_file entries"
    using x n filter_table_by_type_sorted [OF x] filter_table_by_type_sorted [OF n] by blast
next
  assume "tab \<noteq> [] \<and> (\<forall>e \<in> set tab. CHR 0x0A \<notin> set (entry_key e))"
  then show "lines_of (write_table_to_file tab) = map table_line tab"
    by (simp add: write_table_to_file_lines)
qed

text \<open>
  C8, witness: an insertion into an ascending table of two symbols, and the \<open>.ext\<close>
  file written from a symbol table that is not ascending.
\<close>

theorem symbol_table_order_C8_witness:
  "sorted (map entry_value
      [\<lparr>entry_value = 0, entry_key = ''X'', entry_type = DATA_SYMBOL\<rparr>,
       \<lparr>entry_value = 100, entry_key = ''MAIN'', entry_type = CODE_SYMBOL\<rparr>]) \<and>
   sorted (map entry_value
      (add_table_item
        [\<lparr>entry_value = 0, entry_key = ''X'', entry_type = DATA_SYMBOL\<rparr>,
         \<lparr>entry_value = 100, entry_key = ''MAIN'', entry_type = CODE_SYMBOL\<rparr>]
        ''K'' 50 ENTRY_SYMBOL)) \<and>
   filter_table_by_type
      [\<lparr>entry_value = 0, entry_key = ''K'', entry_type = EXTERNAL_SYMBOL\<rparr>,
       \<lparr>entry_value = 100, entry_key = ''MAIN'', entry_type = ENTRY_SYMBOL\<rparr>,
       \<lparr>entry_value = 104, entry_key = ''K'', entry_type = EXTERNAL_REFERENCE\<rparr>,
       \<lparr>entry_value = 105, entry_key = ''X'', entry_type = ENTRY_SYMBOL\<rparr>,
       \<lparr>entry_value = 105, entry_key = ''X'', entry_type = DATA_SYMBOL\<rparr>,
       \<lparr>entry_value = 102, entry_key = ''K'', entry_type = EXTERNAL_REFERENCE\<rparr>,
       \<lparr>entry_value = 100, entry_key = ''MAIN'', entry_type = CODE_SYMBOL\<rparr>]
      EXTERNAL_REFERENCE =
      Inr [\<lparr>entry_value = 102, entry_key = ''K'', entry_type = EXTERNAL_REFERENCE\<rparr>,
           \<lparr>entry_value = 104, entry_key = ''K'', entry_type = EXTERNAL_REFERENCE\<rparr>] \<and>
   sorted (map entry_value
      [\<lparr>entry_value = 102, entry_key = ''K'', entry_type = EXTERNAL_REFERENCE\<rparr>,
       \<lparr>entry_value = 104, entry_key = ''K'', entry_type = EXTERNAL_REFERENCE\<rparr>]) \<and>
   write_output_files
      ((\<lambda>i. None)(0 \<mapsto> Code_Word 1
          \<lparr>ARE = 4, funct = 0, dest_register = 0, dest_addressing = 3,
            src_register = 0, src_addressing = 3, opcode = 15\<rparr>))
      (\<lambda>i. 0) 101 0
      [\<lparr>entry_value = 0, entry_key = ''K'', entry_type = EXTERNAL_SYMBOL\<rparr>,
       \<lparr>entry_value = 100, entry_key = ''MAIN'', entry_type = ENTRY_SYMBOL\<rparr>,
       \<lparr>entry_value = 104, entry_key = ''K'', entry_type = EXTERNAL_REFERENCE\<rparr>,
       \<lparr>entry_value = 105, entry_key = ''X'', entry_type = ENTRY_SYMBOL\<rparr>,
       \<lparr>entry_value = 105, entry_key = ''X'', entry_type = DATA_SYMBOL\<rparr>,
       \<lparr>entry_value = 102, entry_key = ''K'', entry_type = EXTERNAL_REFERENCE\<rparr>,
       \<lparr>entry_value = 100, entry_key = ''MAIN'', entry_type = CODE_SYMBOL\<rparr>] =
      Inr \<lparr>ob_file = ''1 0\<newline>0000100 037434'',
           ext_file = ''K 0000102\<newline>K 0000104'',
           ent_file = ''MAIN 0000100\<newline>X 0000105''\<rparr> \<and>
   [\<lparr>entry_value = 102, entry_key = ''K'', entry_type = EXTERNAL_REFERENCE\<rparr>,
    \<lparr>entry_value = 104, entry_key = ''K'', entry_type = EXTERNAL_REFERENCE\<rparr>] \<noteq> [] \<and>
   CHR 0x0A \<notin> set ''K'' \<and>
   lines_of ''K 0000102\<newline>K 0000104'' = [''K 0000102'', ''K 0000104''] \<and>
   ext_file \<lparr>ob_file = ''1 0\<newline>0000100 037434'',
             ext_file = ''K 0000102\<newline>K 0000104'',
             ent_file = ''MAIN 0000100\<newline>X 0000105''\<rparr> =
     write_table_to_file
       [\<lparr>entry_value = 102, entry_key = ''K'', entry_type = EXTERNAL_REFERENCE\<rparr>,
        \<lparr>entry_value = 104, entry_key = ''K'', entry_type = EXTERNAL_REFERENCE\<rparr>]"
proof -
  let ?T1 = "[\<lparr>entry_value = 0, entry_key = ''X'', entry_type = DATA_SYMBOL\<rparr>,
              \<lparr>entry_value = 100, entry_key = ''MAIN'', entry_type = CODE_SYMBOL\<rparr>]"
  let ?T2 = "[\<lparr>entry_value = 0, entry_key = ''K'', entry_type = EXTERNAL_SYMBOL\<rparr>,
       \<lparr>entry_value = 100, entry_key = ''MAIN'', entry_type = ENTRY_SYMBOL\<rparr>,
       \<lparr>entry_value = 104, entry_key = ''K'', entry_type = EXTERNAL_REFERENCE\<rparr>,
       \<lparr>entry_value = 105, entry_key = ''X'', entry_type = ENTRY_SYMBOL\<rparr>,
       \<lparr>entry_value = 105, entry_key = ''X'', entry_type = DATA_SYMBOL\<rparr>,
       \<lparr>entry_value = 102, entry_key = ''K'', entry_type = EXTERNAL_REFERENCE\<rparr>,
       \<lparr>entry_value = 100, entry_key = ''MAIN'', entry_type = CODE_SYMBOL\<rparr>]"
  let ?R = "[\<lparr>entry_value = 102, entry_key = ''K'', entry_type = EXTERNAL_REFERENCE\<rparr>,
             \<lparr>entry_value = 104, entry_key = ''K'', entry_type = EXTERNAL_REFERENCE\<rparr>]"
  let ?C = "(\<lambda>i. None)(0 \<mapsto> Code_Word 1
          \<lparr>ARE = 4, funct = 0, dest_register = 0, dest_addressing = 3,
            src_register = 0, src_addressing = 3, opcode = 15\<rparr>) :: code_image"
  let ?F = "\<lparr>ob_file = ''1 0\<newline>0000100 037434'',
             ext_file = ''K 0000102\<newline>K 0000104'',
             ent_file = ''MAIN 0000100\<newline>X 0000105''\<rparr>"
  have f: "filter_table_by_type ?T2 EXTERNAL_REFERENCE = Inr ?R" by code_simp
  have w: "write_output_files ?C (\<lambda>i. 0) 101 0 ?T2 = Inr ?F" by code_simp
  have l: "map table_line ?R = [''K 0000102'', ''K 0000104'']" by code_simp
  have e: "write_table_to_file ?R = ''K 0000102\<newline>K 0000104''" by code_simp
  have s1: "sorted (map entry_value ?T1)" by simp
  have k: "?R \<noteq> [] \<and> (\<forall>e \<in> set ?R. CHR 0x0A \<notin> set (entry_key e))" by simp
  note th =
    symbol_table_order_C8
      [where t = ?T1 and k = "''K''" and v = 50 and ty = ENTRY_SYMBOL and tab = ?R
         and r = "[]" and code_img = ?C and data_img = "\<lambda>i. 0" and icf = 101 and dcf = 0
         and files = ?F]
  have a: "sorted (map entry_value (add_table_item ?T1 ''K'' 50 ENTRY_SYMBOL))"
    using th s1 by blast
  have b: "lines_of (write_table_to_file ?R) = map table_line ?R"
    using th k by blast
  note th2 =
    symbol_table_order_C8
      [where t = ?T2 and k = "''K''" and v = 50 and ty = EXTERNAL_REFERENCE and tab = ?R
         and r = ?R and code_img = ?C and data_img = "\<lambda>i. 0" and icf = 101 and dcf = 0
         and files = ?F]
  have c: "sorted (map entry_value ?R)"
    using th2 f by blast
  have d: "lines_of ''K 0000102\<newline>K 0000104'' = [''K 0000102'', ''K 0000104'']"
    using b unfolding e l .
  have g: "ext_file ?F = write_table_to_file ?R"
    using th2 w f by auto
  have n: "CHR 0x0A \<notin> set ''K''" by simp
  show ?thesis
    using s1 a f c w n d g by blast
qed

text \<open>
  C8, counterexample. For a source file with a code label and a data label, the symbol
  table after the second pass holds the data symbol (value 104) before the code symbol
  (value 100): \<^const>\<open>add_value_to_type\<close> has added the final instruction counter to
  the data symbol in place.
\<close>

theorem rebasing_unsorted_C8_counterexample:
  "map_sum id (\<lambda>r. (fr_success r, map entry_value (fr_symbol_table r)))
     (process_file First_Argument
        ''MAIN: mov r1, X\<newline>stop\<newline>X: .data 7\<newline>'') =
     Inr (True, [104, 100]) \<and>
   \<not> sorted [104, 100 :: int] \<and>
   add_table_item (add_table_item [] ''MAIN'' 100 CODE_SYMBOL) ''X'' 0 DATA_SYMBOL =
     [\<lparr>entry_value = 0, entry_key = ''X'', entry_type = DATA_SYMBOL\<rparr>,
      \<lparr>entry_value = 100, entry_key = ''MAIN'', entry_type = CODE_SYMBOL\<rparr>] \<and>
   \<not> sorted (map entry_value
        (add_value_to_type
           [\<lparr>entry_value = 0, entry_key = ''X'', entry_type = DATA_SYMBOL\<rparr>,
            \<lparr>entry_value = 100, entry_key = ''MAIN'', entry_type = CODE_SYMBOL\<rparr>]
           104 DATA_SYMBOL))"
  by code_simp

subsection \<open>C10: output for an empty symbol table\<close>

lemma map_sum_Inl_unit: "map_sum id (\<lambda>r. ()) x = Inl e \<Longrightarrow> x = Inl e"
  by (cases x) auto

lemma process_file_stop:
  "process_file b ''stop\<newline>'' = Inl Null_Dereference"
proof -
  have "map_sum id (\<lambda>r. ()) (process_file First_Argument ''stop\<newline>'') = Inl Null_Dereference"
    by code_simp
  moreover have "map_sum id (\<lambda>r. ()) (process_file Second_Argument ''stop\<newline>'') = Inl Null_Dereference"
    by code_simp
  ultimately show ?thesis
    by (cases b) (auto dest: map_sum_Inl_unit)
qed

text \<open>
  C10. \<^const>\<open>filter_table_by_type\<close> dereferences a table that is \<^verbatim>\<open>NULL\<close> and is
  defined for every other table; \<^const>\<open>write_output_files\<close> calls it without a test,
  so that a source file which assembles without error and defines no symbol (a single
  \<open>stop\<close>) ends in the dereference of a null pointer, not in output files.
\<close>

theorem filter_table_null_C10:
  "filter_table_by_type [] ty = Inl Null_Dereference \<and>
   (tab \<noteq> [] \<longrightarrow> (\<exists>r. filter_table_by_type tab ty = Inr r)) \<and>
   write_output_files code_img data_img icf dcf [] = Inl Null_Dereference \<and>
   process_file b ''stop\<newline>'' = Inl Null_Dereference"
  by (cases tab) (simp_all add: filter_table_by_type_def write_output_files_def process_file_stop)

text \<open>C10, witness: a table of one symbol is filtered to the empty table.\<close>

theorem filter_table_null_C10_witness:
  "[\<lparr>entry_value = 100, entry_key = ''MAIN'', entry_type = CODE_SYMBOL\<rparr>] \<noteq> [] \<and>
   filter_table_by_type [\<lparr>entry_value = 100, entry_key = ''MAIN'', entry_type = CODE_SYMBOL\<rparr>]
     ENTRY_SYMBOL = Inr [] \<and>
   filter_table_by_type [] ENTRY_SYMBOL = Inl Null_Dereference"
  using filter_table_null_C10
    [of ENTRY_SYMBOL "[\<lparr>entry_value = 100, entry_key = ''MAIN'', entry_type = CODE_SYMBOL\<rparr>]"]
  by (simp add: filter_table_by_type_def filter_table_loop.simps)

subsection \<open>C2: the value of a code word in the object file\<close>




subsection \<open>C4: the address recorded for a reference to an external symbol\<close>

text \<open>
  C4, evaluated at \<open>.extern K\<close> / \<open>jmp K\<close> / \<open>stop\<close>. The file assembles; the code word of
  \<open>jmp\<close> is at address 100 and the word of its operand \<open>K\<close> at address 101 (slot 1), where
  the second pass writes payload 0 with ARE 1. The \<open>EXTERNAL_REFERENCE\<close> entry that
  \<^verbatim>\<open>process_direct_operand\<close> adds has the key \<open>K\<close> and the value 102: the address passed to
  it plus one, which is the address of \<open>stop\<close>, not the one of the operand word. The
  \<open>.ext\<close> file is the single line \<open>K 0000102\<close>, where the claim (and the comment of
  \<open>EXTERNAL_REFERENCE\<close> in table.h, ``address that contains a reference to external symbol'')
  has 101. The result is the same for both readings of the three-argument calls of the
  first pass, and for \<^verbatim>\<open>process_direct_operand\<close> called directly at address 101.
\<close>

theorem external_reference_C4:
  "map_sum id
     (\<lambda>r. (fr_success r, map_option ext_file (fr_files r), fr_code_img r 1, fr_symbol_table r))
     (process_file First_Argument ''.extern K\<newline>jmp K\<newline>stop\<newline>'') =
   Inr (True, Some ''K 0000102'', Some (Data_Word \<lparr>data_ARE = 1, data = 0\<rparr>),
        [\<lparr>entry_value = 0, entry_key = ''K'', entry_type = EXTERNAL_SYMBOL\<rparr>,
         \<lparr>entry_value = 102, entry_key = ''K'', entry_type = EXTERNAL_REFERENCE\<rparr>]) \<and>
   map_sum id
     (\<lambda>r. (fr_success r, map_option ext_file (fr_files r), fr_code_img r 1, fr_symbol_table r))
     (process_file Second_Argument ''.extern K\<newline>jmp K\<newline>stop\<newline>'') =
   Inr (True, Some ''K 0000102'', Some (Data_Word \<lparr>data_ARE = 1, data = 0\<rparr>),
        [\<lparr>entry_value = 0, entry_key = ''K'', entry_type = EXTERNAL_SYMBOL\<rparr>,
         \<lparr>entry_value = 102, entry_key = ''K'', entry_type = EXTERNAL_REFERENCE\<rparr>]) \<and>
   (case process_direct_operand 101 ''K'' (\<lambda>i. None)
           [\<lparr>entry_value = 0, entry_key = ''K'', entry_type = EXTERNAL_SYMBOL\<rparr>] of
      (ok, code_img, symbol_table) \<Rightarrow> (ok, code_img 1, code_img 2, symbol_table)) =
   (True, Some (Data_Word \<lparr>data_ARE = 1, data = 0\<rparr>), None,
    [\<lparr>entry_value = 0, entry_key = ''K'', entry_type = EXTERNAL_SYMBOL\<rparr>,
     \<lparr>entry_value = 102, entry_key = ''K'', entry_type = EXTERNAL_REFERENCE\<rparr>])"
  by code_simp

subsection \<open>C6: the values stored by a .string directive\<close>

text \<open>
  C6, evaluated at \<open>.string "ab"\<close>. \<^verbatim>\<open>process_string_instruction\<close> succeeds and appends three
  values, not \<open>a\<close>, \<open>b\<close>, 0: it stores 97, 98 and 34, the closing quote, and no terminating
  0; DC advances by 3. The loop copies every character after the opening quote up to the
  end of the line, so text after the closing quote is stored as well (\<open>.string "ab" ;c\<close>
  stores six values). In the object file of \<open>MAIN: stop\<close> / \<open>S: .string "ab"\<close> the data
  part has the three words 000141, 000142, 000042. The last sentence of the claim holds
  at the two lines tried: without an opening quote, and with an opening quote only, the
  line fails.
\<close>

theorem string_directive_C6:
  "(case process_string_instruction ''.string \"ab\"\<newline>'' 7 (\<lambda>i. 0) 0 of
      (ok, data_img, dc) \<Rightarrow> (ok, map data_img [0, 1, 2], dc)) = (True, [97, 98, 34], 3) \<and>
   (case process_string_instruction ''.string \"ab\" ;c\<newline>'' 7 (\<lambda>i. 0) 0 of
      (ok, data_img, dc) \<Rightarrow> (ok, map data_img [0, 1, 2, 3, 4, 5], dc)) =
     (True, [97, 98, 34, 32, 59, 99], 6) \<and>
   map_sum id (\<lambda>r. (fr_success r, fr_dcf r, map_option ob_file (fr_files r)))
     (process_file First_Argument ''MAIN: stop\<newline>S: .string \"ab\"\<newline>'') =
     Inr (True, 3,
          Some ''1 3\<newline>0000100 037434\<newline>0000101 000141\<newline>0000102 000142\<newline>0000103 000042'') \<and>
   fst (process_string_instruction ''.string ab\"\<newline>'' 7 (\<lambda>i. 0) 0) = False \<and>
   fst (process_string_instruction ''.string \"ab\<newline>'' 7 (\<lambda>i. 0) 0) = False"
  by code_simp

subsection \<open>C1: the word of a direct operand in the second pass\<close>




subsection \<open>C5: the word shared by two register operands\<close>




end
